theory Spec2Isabelle
  imports Main "HOL-Library.Word"
begin

unbundle bit_operations_syntax

section \<open>ACL structures (acls.c, lines 36-90)\<close>

text \<open>
  The C types: \<open>uchar\<close> is an 8-bit word, \<open>uint32\<close>, \<open>id_t\<close> and \<open>mode_t\<close> are
  32-bit words, \<open>int\<close> is a 32-bit word read through \<open>sint\<close> where its sign matters.
  An \<open>ida_entries\<close> value (a heap array with its count) is the list of its elements;
  its \<open>count\<close> is the length of the list.
\<close>

type_synonym uchar = "8 word"
type_synonym uint32 = "32 word"
type_synonym id_t = "32 word"
type_synonym mode_t = "32 word"

definition XMIT_USER_OBJ :: uchar where "XMIT_USER_OBJ = 1"
definition XMIT_GROUP_OBJ :: uchar where "XMIT_GROUP_OBJ = 2"
definition XMIT_MASK_OBJ :: uchar where "XMIT_MASK_OBJ = 4"
definition XMIT_OTHER_OBJ :: uchar where "XMIT_OTHER_OBJ = 8"
definition XMIT_NAME_LIST :: uchar where "XMIT_NAME_LIST = 16"

definition NO_ENTRY :: uchar where "NO_ENTRY = 0x80"

definition NAME_IS_USER :: uint32 where "NAME_IS_USER = 0x80000000"

definition XFLAG_NAME_FOLLOWS :: uint32 where "XFLAG_NAME_FOLLOWS = 1"
definition XFLAG_NAME_IS_USER :: uint32 where "XFLAG_NAME_IS_USER = 2"

record id_access =
  ida_id :: id_t
  access :: uint32

type_synonym ida_entries = "id_access list"

record rsync_acl =
  names :: ida_entries
  user_obj :: uchar
  group_obj :: uchar
  mask_obj :: uchar
  other_obj :: uchar

definition empty_rsync_acl :: rsync_acl where
  "empty_rsync_acl =
     \<lparr>names = [], user_obj = NO_ENTRY, group_obj = NO_ENTRY,
      mask_obj = NO_ENTRY, other_obj = NO_ENTRY\<rparr>"

section \<open>Calculations on ACL types (lines 112-142)\<close>

text \<open>\<open>rsync_acl_get_perms\<close>: the slots are promoted to \<open>int\<close> before shifting.\<close>

definition rsync_acl_get_perms :: "rsync_acl \<Rightarrow> uint32" where
  "rsync_acl_get_perms racl =
     push_bit 6 (ucast (user_obj racl))
     + push_bit 3 (ucast (if mask_obj racl \<noteq> NO_ENTRY then mask_obj racl else group_obj racl))
     + ucast (other_obj racl)"

definition rsync_acl_strip_perms :: "rsync_acl \<Rightarrow> rsync_acl" where
  "rsync_acl_strip_perms racl =
     (let racl = racl\<lparr>user_obj := NO_ENTRY\<rparr>;
          racl = (if mask_obj racl = NO_ENTRY then racl\<lparr>group_obj := NO_ENTRY\<rparr>
                  else (let racl = (if group_obj racl = mask_obj racl
                                    then racl\<lparr>group_obj := NO_ENTRY\<rparr> else racl)
                        in racl\<lparr>mask_obj := NO_ENTRY\<rparr>))
      in racl\<lparr>other_obj := NO_ENTRY\<rparr>)"

definition rsync_acl_fake_perms :: "rsync_acl \<Rightarrow> mode_t \<Rightarrow> rsync_acl" where
  "rsync_acl_fake_perms racl mode =
     racl\<lparr>user_obj := ucast (drop_bit 6 mode AND 7),
          group_obj := ucast (drop_bit 3 mode AND 7),
          other_obj := ucast (mode AND 7)\<rparr>"

section \<open>Rsync ACL functions (lines 157-205)\<close>

text \<open>
  \<open>ida_entries_equal\<close>: the counts are compared first, then the two arrays are walked
  in step.
\<close>

fun ida_entries_loop :: "id_access list \<Rightarrow> id_access list \<Rightarrow> bool" where
  "ida_entries_loop (ida1 # r1) (ida2 # r2) =
     (if access ida1 \<noteq> access ida2 \<or> ida_id ida1 \<noteq> ida_id ida2 then False
      else ida_entries_loop r1 r2)"
| "ida_entries_loop _ _ = True"

definition ida_entries_equal :: "ida_entries \<Rightarrow> ida_entries \<Rightarrow> bool" where
  "ida_entries_equal ial1 ial2 =
     (if length ial1 \<noteq> length ial2 then False else ida_entries_loop ial1 ial2)"

definition rsync_acl_equal :: "rsync_acl \<Rightarrow> rsync_acl \<Rightarrow> bool" where
  "rsync_acl_equal racl1 racl2 =
     (user_obj racl1 = user_obj racl2
      \<and> group_obj racl1 = group_obj racl2
      \<and> mask_obj racl1 = mask_obj racl2
      \<and> other_obj racl1 = other_obj racl2
      \<and> ida_entries_equal (names racl1) (names racl2))"

definition rsync_acl_equal_enough :: "rsync_acl \<Rightarrow> rsync_acl \<Rightarrow> mode_t \<Rightarrow> bool" where
  "rsync_acl_equal_enough racl1 racl2 m =
     (if (mask_obj racl1 XOR mask_obj racl2) AND NO_ENTRY \<noteq> 0 then False
      else if mask_obj racl1 \<noteq> NO_ENTRY
              \<and> (if group_obj racl2 = NO_ENTRY
                  then (ucast (group_obj racl1) :: uint32) \<noteq> (drop_bit 3 m AND 7)
                  else group_obj racl1 \<noteq> group_obj racl2)
           then False
      else ida_entries_equal (names racl1) (names racl2))"


section \<open>The ACL caches (lines 80-90, 454-476, 747-763)\<close>

datatype SMB_ACL_TYPE_T = SMB_ACL_TYPE_ACCESS | SMB_ACL_TYPE_DEFAULT

datatype SMB_ACL_TAG_T =
    SMB_ACL_USER_OBJ | SMB_ACL_USER | SMB_ACL_GROUP_OBJ | SMB_ACL_GROUP
  | SMB_ACL_MASK | SMB_ACL_OTHER | SMB_ACL_UNKNOWN_TAG nat

text \<open>
  A system ACL (\<open>SMB_ACL_T\<close>, declared in lib/sysacls.h) is seen by acls.c only through
  the \<open>sys_acl_*\<close> calls: a sequence of entries, each with a tag type, a qualifier and
  access bits.
\<close>

record smb_entry =
  tag_type :: SMB_ACL_TAG_T
  qualifier :: "id_t option"
  access_bits :: uint32

type_synonym SMB_ACL_T = "smb_entry list"

text \<open>
  The \<open>sacl\<close> pointer of an \<open>acl_duo\<close>: \<open>NULL\<close>, a live system ACL, or a pointer
  that \<open>pack_smb_acl\<close> has left behind after \<open>sys_acl_free_acl\<close>.
\<close>

datatype sacl_ptr = Sacl_null | Sacl SMB_ACL_T | Sacl_freed

record acl_duo =
  racl :: rsync_acl
  sacl :: sacl_ptr

text \<open>
  The two function-static cursors of \<open>find_matching_rsync_acl\<close>. A C \<open>int\<close> that
  indexes a list is an \<open>int\<close> here: the lists stay far below \<open>2^31\<close> elements.
\<close>

record match_state =
  access_match :: int
  default_match :: int

definition initial_match_state :: match_state where
  "initial_match_state = \<lparr>access_match = - 1, default_match = - 1\<rparr>"

text \<open>
  An \<open>item_list\<close> is an untyped buffer \<open>items\<close> with a \<open>count\<close>;
  \<open>EXPAND_ITEM_LIST(lp, type, incr)\<close> appends one element of \<open>sizeof (type)\<close> bytes.
  The sender's lists hold \<open>rsync_acl\<close> elements (line 570), the lists filled by
  \<open>recv_rsync_acl\<close> and \<open>cache_rsync_acl\<close> hold \<open>acl_duo\<close> elements (lines 707, 756).
  \<open>find_matching_rsync_acl\<close> reads every list through \<open>rsync_acl *base\<close>, so
  \<open>base + i\<close> is the address \<open>i * sizeof (rsync_acl)\<close> bytes into the buffer. What
  is stored there is given to the model as a function from \<open>i\<close>: \<open>None\<close> when the
  address is not the start of a stored \<open>rsync_acl\<close>.

  The sizes depend on the platform's \<open>id_t\<close>, pointers and \<open>SMB_ACL_T\<close>; they are
  parameters. An \<open>acl_duo\<close> is an \<open>rsync_acl\<close> (its first member, at offset 0)
  followed by an \<open>SMB_ACL_T\<close>.
\<close>

record layout =
  sizeof_rsync_acl :: nat
  sizeof_acl_duo :: nat

definition racl_items :: "rsync_acl list \<Rightarrow> int \<Rightarrow> rsync_acl option" where
  "racl_items xs i = (if 0 \<le> i \<and> i < int (length xs) then Some (xs ! nat i) else None)"

definition duo_items :: "layout \<Rightarrow> acl_duo list \<Rightarrow> int \<Rightarrow> rsync_acl option" where
  "duo_items L xs i =
     (if i < 0 \<or> sizeof_acl_duo L = 0 then None
      else (let off = nat i * sizeof_rsync_acl L
            in if off mod sizeof_acl_duo L = 0 \<and> off div sizeof_acl_duo L < length xs
               then Some (racl (xs ! (off div sizeof_acl_duo L)))
               else None))"

text \<open>
  The result of a lookup that compares against bytes which are not a stored ACL is
  not determined by the program text: the model stops there with the index read.
\<close>

datatype stray = Stray_read int

text \<open>
  The \<open>while (count--)\<close> loop of \<open>find_matching_rsync_acl\<close>: \<open>n\<close> is
  \<open>racl_list->count\<close>, the next argument the iterations left, \<open>m\<close> the cursor
  \<open>*match\<close>. The result is the returned index with the cursor's final value.
\<close>

fun find_loop ::
  "rsync_acl \<Rightarrow> (int \<Rightarrow> rsync_acl option) \<Rightarrow> nat \<Rightarrow> nat \<Rightarrow> int \<Rightarrow> stray + (int \<times> int)" where
  "find_loop r base n 0 m = Inr (- 1, - 1)"
| "find_loop r base n (Suc k) m =
     (case base m of
        None \<Rightarrow> Inl (Stray_read m)
      | Some b \<Rightarrow>
          if rsync_acl_equal b r then Inr (m, m)
          else find_loop r base n k (if m = 0 then int n - 1 else m - 1))"

definition find_matching_rsync_acl ::
  "rsync_acl \<Rightarrow> SMB_ACL_TYPE_T \<Rightarrow> match_state \<Rightarrow> (int \<Rightarrow> rsync_acl option) \<Rightarrow> nat
   \<Rightarrow> stray + (int \<times> match_state)" where
  "find_matching_rsync_acl r type st base n =
     (let m = (if type = SMB_ACL_TYPE_ACCESS then access_match st else default_match st);
          m = (if m = - 1 then int n - 1 else m)
      in case find_loop r base n n m of
           Inl e \<Rightarrow> Inl e
         | Inr (ndx, m') \<Rightarrow>
             Inr (ndx, if type = SMB_ACL_TYPE_ACCESS then st\<lparr>access_match := m'\<rparr>
                       else st\<lparr>default_match := m'\<rparr>))"

text \<open>
  \<open>cache_rsync_acl\<close>: the candidate is \<open>None\<close> for a \<open>NULL\<close> pointer. The result is
  the index, the list, and the cursors; the caller's copy is emptied when it was
  moved into the list.
\<close>

definition cache_rsync_acl ::
  "layout \<Rightarrow> rsync_acl option \<Rightarrow> SMB_ACL_TYPE_T \<Rightarrow> match_state \<Rightarrow> acl_duo list
   \<Rightarrow> stray + (int \<times> rsync_acl option \<times> acl_duo list \<times> match_state)" where
  "cache_rsync_acl L racl_ptr type st racl_list =
     (case racl_ptr of
        None \<Rightarrow> Inr (- 1, None, racl_list, st)
      | Some r \<Rightarrow>
          (case find_matching_rsync_acl r type st (duo_items L racl_list) (length racl_list) of
             Inl e \<Rightarrow> Inl e
           | Inr (ndx, st') \<Rightarrow>
               if ndx = - 1
               then Inr (int (length racl_list), Some empty_rsync_acl,
                         racl_list @ [\<lparr>racl = r, sacl = Sacl_null\<rparr>], st')
               else Inr (ndx, Some r, racl_list, st')))"


section \<open>The connection and the globals\<close>

text \<open>
  Modelled from the spec: the connection primitives (io.c) are not part of acls.c. The
  spec gives them as writing and reading "a variable-length unsigned integer, a
  single byte, and a raw byte buffer of known length, over an ordered byte stream".
  The stream is the sequence of items written; the byte encoding of an item is left
  to the connection layer. A read that finds no item, or an item of another kind,
  has left the framing: what the connection layer does then is not described by
  acls.c, and the model stops with \<open>Stream_desync\<close>.
\<close>

datatype wire = Varint uint32 | Byte uchar | Buf string

datatype exit_code = RERR_STREAMIO | RERR_MALLOC

text \<open>What \<open>rprintf\<close> printed before \<open>exit_cleanup\<close>, by its arguments.\<close>

datatype message =
    Acl_index_msg SMB_ACL_TYPE_T int nat
  | Value_out_of_range_msg uint32
  | Out_of_memory_msg string

datatype fatal = Exit_cleanup exit_code message | Stream_desync

definition read_varint :: "wire list \<Rightarrow> fatal + (uint32 \<times> wire list)" where
  "read_varint f = (case f of Varint v # f' \<Rightarrow> Inr (v, f') | _ \<Rightarrow> Inl Stream_desync)"

definition read_byte :: "wire list \<Rightarrow> fatal + (uchar \<times> wire list)" where
  "read_byte f = (case f of Byte b # f' \<Rightarrow> Inr (b, f') | _ \<Rightarrow> Inl Stream_desync)"

definition read_sbuf :: "nat \<Rightarrow> wire list \<Rightarrow> fatal + (string \<times> wire list)" where
  "read_sbuf len f =
     (case f of
        Buf b # f' \<Rightarrow> if length b = len then Inr (b, f') else Inl Stream_desync
      | _ \<Rightarrow> Inl Stream_desync)"

text \<open>
  The globals read by the codec and the id/name services of uidlist.c, which acls.c
  only calls. \<open>add_uid\<close> and \<open>add_gid\<close> return the name to transmit or \<open>NULL\<close>;
  \<open>match_uid\<close> and \<open>match_gid\<close> map a received id to a local one.

  Modelled from the spec: \<open>recv_user_name\<close> and \<open>recv_group_name\<close> are not in
  acls.c. The spec has the name "written as a one-byte length followed by that many
  raw bytes immediately after the combined field"; the reader takes them off the
  stream and hands name and id to the id/name resolution (\<open>user_name_id\<close>,
  \<open>group_name_id\<close>).
\<close>

record env =
  inc_recurse :: bool
  am_root :: bool
  numeric_ids :: bool
  add_uid :: "id_t \<Rightarrow> string option"
  add_gid :: "id_t \<Rightarrow> string option"
  match_uid :: "id_t \<Rightarrow> id_t"
  match_gid :: "id_t \<Rightarrow> id_t"
  user_name_id :: "string \<Rightarrow> id_t \<Rightarrow> id_t"
  group_name_id :: "string \<Rightarrow> id_t \<Rightarrow> id_t"

definition recv_user_name :: "env \<Rightarrow> wire list \<Rightarrow> id_t \<Rightarrow> fatal + (id_t \<times> wire list)" where
  "recv_user_name E f uid =
     (case read_byte f of
        Inl e \<Rightarrow> Inl e
      | Inr (len, f) \<Rightarrow>
          (case read_sbuf (unat len) f of
             Inl e \<Rightarrow> Inl e
           | Inr (name, f) \<Rightarrow> Inr (user_name_id E name uid, f)))"

definition recv_group_name :: "env \<Rightarrow> wire list \<Rightarrow> id_t \<Rightarrow> fatal + (id_t \<times> wire list)" where
  "recv_group_name E f gid =
     (case read_byte f of
        Inl e \<Rightarrow> Inl e
      | Inr (len, f) \<Rightarrow>
          (case read_sbuf (unat len) f of
             Inl e \<Rightarrow> Inl e
           | Inr (name, f) \<Rightarrow> Inr (group_name_id E name gid, f)))"

text \<open>
  Modelled from the spec: \<open>SMB_ACL_VALID_NAME_BITS\<close> and \<open>SMB_ACL_VALID_OBJ_BITS\<close>
  are macros of lib/sysacls.h. The spec gives a permission as "an optional 3-bit
  value (0-7)" for a slot and a "3-bit value" for a named entry.
\<close>

definition SMB_ACL_VALID_NAME_BITS :: uint32 where "SMB_ACL_VALID_NAME_BITS = 7"
definition SMB_ACL_VALID_OBJ_BITS :: uint32 where "SMB_ACL_VALID_OBJ_BITS = 7"

section \<open>Send functions (lines 534-601)\<close>

text \<open>The functions return the items they write to \<open>f\<close>, in order.\<close>

fun send_ida_loop :: "env \<Rightarrow> id_access list \<Rightarrow> wire list" where
  "send_ida_loop E [] = []"
| "send_ida_loop E (ida # rest) =
     (let xbits = push_bit 2 (access ida);
          is_user = (access ida AND NAME_IS_USER \<noteq> 0);
          xbits = (if is_user then xbits OR XFLAG_NAME_IS_USER else xbits);
          name = (if is_user then add_uid E (ida_id ida) else add_gid E (ida_id ida))
      in Varint (ida_id ida)
         # (case (if inc_recurse E then name else None) of
              Some nm \<Rightarrow>
                [Varint (xbits OR XFLAG_NAME_FOLLOWS), Byte (of_nat (length nm)), Buf nm]
            | None \<Rightarrow> [Varint xbits])
         @ send_ida_loop E rest)"

definition send_ida_entries :: "env \<Rightarrow> ida_entries \<Rightarrow> wire list" where
  "send_ida_entries E idal = Varint (of_nat (length idal)) # send_ida_loop E idal"

text \<open>The body of \<open>if (ndx < 0)\<close> in \<open>send_rsync_acl\<close>: the literal ACL data.\<close>

definition send_flags :: "rsync_acl \<Rightarrow> uchar" where
  "send_flags r =
     (let flags = 0;
          flags = (if user_obj r \<noteq> NO_ENTRY then flags OR XMIT_USER_OBJ else flags);
          flags = (if group_obj r \<noteq> NO_ENTRY then flags OR XMIT_GROUP_OBJ else flags);
          flags = (if mask_obj r \<noteq> NO_ENTRY then flags OR XMIT_MASK_OBJ else flags);
          flags = (if other_obj r \<noteq> NO_ENTRY then flags OR XMIT_OTHER_OBJ else flags);
          flags = (if length (names r) \<noteq> 0 then flags OR XMIT_NAME_LIST else flags)
      in flags)"

definition send_literal :: "env \<Rightarrow> rsync_acl \<Rightarrow> wire list" where
  "send_literal E r =
     (let flags = send_flags r
      in [Byte flags]
         @ (if flags AND XMIT_USER_OBJ \<noteq> 0 then [Varint (ucast (user_obj r))] else [])
         @ (if flags AND XMIT_GROUP_OBJ \<noteq> 0 then [Varint (ucast (group_obj r))] else [])
         @ (if flags AND XMIT_MASK_OBJ \<noteq> 0 then [Varint (ucast (mask_obj r))] else [])
         @ (if flags AND XMIT_OTHER_OBJ \<noteq> 0 then [Varint (ucast (other_obj r))] else [])
         @ (if flags AND XMIT_NAME_LIST \<noteq> 0 then send_ida_entries E (names r) else []))"

text \<open>
  \<open>send_rsync_acl\<close>: the result is what was written, the caller's \<open>*racl\<close>
  afterwards, the list and the cursors.
\<close>

definition send_rsync_acl ::
  "env \<Rightarrow> rsync_acl \<Rightarrow> SMB_ACL_TYPE_T \<Rightarrow> match_state \<Rightarrow> rsync_acl list
   \<Rightarrow> stray + (wire list \<times> rsync_acl \<times> rsync_acl list \<times> match_state)" where
  "send_rsync_acl E r type st racl_list =
     (case find_matching_rsync_acl r type st (racl_items racl_list) (length racl_list) of
        Inl e \<Rightarrow> Inl e
      | Inr (ndx, st') \<Rightarrow>
          if ndx < 0
          then Inr (Varint (of_int (ndx + 1)) # send_literal E r,
                    empty_rsync_acl, racl_list @ [r], st')
          else Inr ([Varint (of_int (ndx + 1))], r, racl_list, st'))"


section \<open>Receive functions (lines 626-736)\<close>

text \<open>
  \<open>recv_acl_access\<close> (its local \<open>access\<close> is \<open>a\<close> here): the flag says whether
  \<open>name_follows_ptr\<close> is non-\<open>NULL\<close>. The result is the access value,
  \<open>*name_follows_ptr\<close> and the rest of the stream.
\<close>

definition recv_acl_access :: "bool \<Rightarrow> wire list \<Rightarrow> fatal + (uint32 \<times> uchar \<times> wire list)" where
  "recv_acl_access name_follows_ptr f =
     (case read_varint f of
        Inl e \<Rightarrow> Inl e
      | Inr (a, f) \<Rightarrow>
          if name_follows_ptr then
            (let flags = a AND 3;
                 a = drop_bit 2 a
             in if a AND NOT SMB_ACL_VALID_NAME_BITS \<noteq> 0
                then Inl (Exit_cleanup RERR_STREAMIO (Value_out_of_range_msg a))
                else (let name_follows = (if flags AND XFLAG_NAME_FOLLOWS \<noteq> 0 then 1 else 0);
                          a = (if flags AND XFLAG_NAME_IS_USER \<noteq> 0
                                    then a OR NAME_IS_USER else a)
                      in Inr (a, name_follows, f)))
          else if a AND NOT SMB_ACL_VALID_OBJ_BITS \<noteq> 0
               then Inl (Exit_cleanup RERR_STREAMIO (Value_out_of_range_msg a))
               else Inr (a, 0, f))"

text \<open>
  The \<open>for\<close> loop of \<open>recv_ida_entries\<close>: the first number is the count of
  entries still to read, \<open>idas\<close> the entries stored so far.
\<close>

fun recv_ida_loop ::
  "env \<Rightarrow> nat \<Rightarrow> wire list \<Rightarrow> id_access list \<Rightarrow> uchar
   \<Rightarrow> fatal + (id_access list \<times> uchar \<times> wire list)" where
  "recv_ida_loop E 0 f idas computed_mask_bits = Inr (idas, computed_mask_bits, f)"
| "recv_ida_loop E (Suc k) f idas computed_mask_bits =
     (case read_varint f of
        Inl e \<Rightarrow> Inl e
      | Inr (id0, f) \<Rightarrow>
          (case recv_acl_access True f of
             Inl e \<Rightarrow> Inl e
           | Inr (a, has_name, f) \<Rightarrow>
               (case (if has_name \<noteq> 0 then
                        (if a AND NAME_IS_USER \<noteq> 0 then recv_user_name E f id0
                         else recv_group_name E f id0)
                      else if a AND NAME_IS_USER \<noteq> 0 then
                        (if inc_recurse E \<and> am_root E \<and> \<not> numeric_ids E
                         then Inr (match_uid E id0, f) else Inr (id0, f))
                      else
                        (if inc_recurse E \<and> (\<not> am_root E \<or> \<not> numeric_ids E)
                         then Inr (match_gid E id0, f) else Inr (id0, f))) of
                  Inl e \<Rightarrow> Inl e
                | Inr (id1, f) \<Rightarrow>
                    recv_ida_loop E k f (idas @ [\<lparr>ida_id = id1, access = a\<rparr>])
                      (computed_mask_bits OR ucast a))))"

text \<open>
  \<open>recv_ida_entries\<close>: \<open>count\<close> is an \<open>int\<close>. \<open>new_array\<close> takes the count as an
  unsigned size, so a negative count asks for more than can be allocated and ends in
  \<open>out_of_memory\<close>; the allocation of a non-negative count is taken to succeed.
\<close>

definition recv_ida_entries ::
  "env \<Rightarrow> wire list \<Rightarrow> fatal + (ida_entries \<times> uchar \<times> wire list)" where
  "recv_ida_entries E f =
     (case read_varint f of
        Inl e \<Rightarrow> Inl e
      | Inr (count, f) \<Rightarrow>
          if sint count < 0
          then Inl (Exit_cleanup RERR_MALLOC (Out_of_memory_msg ''recv_ida_entries''))
          else (case recv_ida_loop E (nat (sint count)) f [] 0 of
                  Inl e \<Rightarrow> Inl e
                | Inr (idas, computed_mask_bits, f) \<Rightarrow>
                    Inr (idas, computed_mask_bits AND NOT NO_ENTRY, f)))"

text \<open>One \<open>if (flags & XMIT_..._OBJ) ... = recv_acl_access(NULL, f)\<close> of lines 712-719.\<close>

definition recv_obj :: "uchar \<Rightarrow> uchar \<Rightarrow> uchar \<Rightarrow> wire list \<Rightarrow> fatal + (uchar \<times> wire list)" where
  "recv_obj flags xmit old f =
     (if flags AND xmit \<noteq> 0
      then (case recv_acl_access False f of
              Inl e \<Rightarrow> Inl e
            | Inr (a, _, f) \<Rightarrow> Inr (ucast a, f))
      else Inr (old, f))"

text \<open>Lines 723-731: a superfluous mask is thrown away, a missing one is made up.\<close>

definition recv_mask_fixup :: "rsync_acl \<Rightarrow> uchar \<Rightarrow> rsync_acl" where
  "recv_mask_fixup r computed_mask_bits =
     (if length (names r) = 0 then
        (if mask_obj r \<noteq> NO_ENTRY
         then r\<lparr>group_obj := group_obj r AND (mask_obj r OR NO_ENTRY), mask_obj := NO_ENTRY\<rparr>
         else r)
      else if mask_obj r = NO_ENTRY
      then r\<lparr>mask_obj := (computed_mask_bits OR group_obj r) AND NOT NO_ENTRY\<rparr>
      else r)"

text \<open>
  Lines 708-721: the literal ACL data that follows an index of 0, as received. The
  result is \<open>duo_item->racl\<close> and \<open>computed_mask_bits\<close> before line 723.
\<close>

definition recv_literal_fields ::
  "env \<Rightarrow> wire list \<Rightarrow> fatal + (rsync_acl \<times> uchar \<times> wire list)" where
  "recv_literal_fields E f =
     (case read_byte f of
        Inl e \<Rightarrow> Inl e
      | Inr (flags, f) \<Rightarrow>
     (case recv_obj flags XMIT_USER_OBJ (user_obj empty_rsync_acl) f of
        Inl e \<Rightarrow> Inl e
      | Inr (u, f) \<Rightarrow>
     (case recv_obj flags XMIT_GROUP_OBJ (group_obj empty_rsync_acl) f of
        Inl e \<Rightarrow> Inl e
      | Inr (g, f) \<Rightarrow>
     (case recv_obj flags XMIT_MASK_OBJ (mask_obj empty_rsync_acl) f of
        Inl e \<Rightarrow> Inl e
      | Inr (m, f) \<Rightarrow>
     (case recv_obj flags XMIT_OTHER_OBJ (other_obj empty_rsync_acl) f of
        Inl e \<Rightarrow> Inl e
      | Inr (ot, f) \<Rightarrow>
     (case (if flags AND XMIT_NAME_LIST \<noteq> 0 then recv_ida_entries E f
            else Inr (names empty_rsync_acl, 0, f)) of
        Inl e \<Rightarrow> Inl e
      | Inr (idas, bits, f) \<Rightarrow>
          Inr (\<lparr>names = idas, user_obj = u, group_obj = g, mask_obj = m, other_obj = ot\<rparr>,
               0 OR bits, f)))))))"

text \<open>Lines 706-735: the new list element.\<close>

definition recv_literal :: "env \<Rightarrow> wire list \<Rightarrow> fatal + (acl_duo \<times> wire list)" where
  "recv_literal E f =
     (case recv_literal_fields E f of
        Inl e \<Rightarrow> Inl e
      | Inr (r, computed_mask_bits, f) \<Rightarrow>
          Inr (\<lparr>racl = recv_mask_fixup r computed_mask_bits, sacl = Sacl_null\<rparr>, f))"

text \<open>
  \<open>recv_rsync_acl\<close>: the result is the returned index, the list and the rest of the
  stream.
\<close>

definition recv_rsync_acl ::
  "env \<Rightarrow> acl_duo list \<Rightarrow> SMB_ACL_TYPE_T \<Rightarrow> wire list
   \<Rightarrow> fatal + (int \<times> acl_duo list \<times> wire list)" where
  "recv_rsync_acl E racl_list type f =
     (case read_varint f of
        Inl e \<Rightarrow> Inl e
      | Inr (ndx, f) \<Rightarrow>
          if sint ndx < 0 \<or> nat (sint ndx) > length racl_list
          then Inl (Exit_cleanup RERR_STREAMIO
                      (Acl_index_msg type (sint ndx) (length racl_list)))
          else if ndx \<noteq> 0 then Inr (sint ndx - 1, racl_list, f)
          else (case recv_literal E f of
                  Inl e \<Rightarrow> Inl e
                | Inr (duo_item, f) \<Rightarrow>
                    Inr (int (length racl_list), racl_list @ [duo_item], f)))"


section \<open>System ACLs (lines 101-110, 363-452, 778-885)\<close>

text \<open>
  Modelled from the spec: the \<open>sys_acl_*\<close> calls (lib/sysacls.c) are the spec's
  "Platform ACL access": "construct a native ACL object from scratch; read/write a
  path's access or default ACL; delete a path's default ACL". Which calls report an
  error is a parameter (\<open>sys_fails\<close>); a call that succeeds does to the entry list
  what its name says. The three \<open>#ifdef\<close> switches of acls.c are fields of the same
  record. Every function returns the calls it made, in order.
\<close>

datatype sys_call =
    Sys_acl_init nat
  | Sys_acl_create_entry
  | Sys_acl_set_tag_type SMB_ACL_TAG_T
  | Sys_acl_set_qualifier id_t
  | Sys_acl_set_access_bits uint32
  | Sys_acl_get_entry nat
  | Sys_acl_get_tag_type nat
  | Sys_acl_free_acl
  | Sys_acl_delete_def_file string
  | Sys_acl_set_file string SMB_ACL_TYPE_T SMB_ACL_T

record platform =
  ACLS_NEED_MASK :: bool
  SMB_ACL_NEED_SORT :: bool
  SMB_ACL_LOSES_SPECIAL_MODE_BITS :: bool
  sys_fails :: "sys_call \<Rightarrow> bool"

text \<open>The mode bits of \<open>sys/stat.h\<close> and rsync.h, with their POSIX values.\<close>

definition S_IFMT :: mode_t where "S_IFMT = 0xF000"
definition S_IFDIR :: mode_t where "S_IFDIR = 0x4000"
definition S_ISUID :: mode_t where "S_ISUID = 0x800"
definition S_ISGID :: mode_t where "S_ISGID = 0x400"
definition S_ISVTX :: mode_t where "S_ISVTX = 0x200"
definition ACCESSPERMS :: mode_t where "ACCESSPERMS = 0x1FF"
definition CHMOD_BITS :: mode_t where "CHMOD_BITS = S_ISUID OR S_ISGID OR S_ISVTX OR ACCESSPERMS"

definition S_ISDIR :: "mode_t \<Rightarrow> bool" where
  "S_ISDIR mode = (mode AND S_IFMT = S_IFDIR)"

definition BITS_EQUAL :: "mode_t \<Rightarrow> mode_t \<Rightarrow> mode_t \<Rightarrow> bool" where
  "BITS_EQUAL b1 b2 msk = (b1 AND msk = b2 AND msk)"

definition calc_sacl_entries :: "platform \<Rightarrow> rsync_acl \<Rightarrow> nat" where
  "calc_sacl_entries P r =
     length (names r)
     + (if ACLS_NEED_MASK P then 4 else (if mask_obj r \<noteq> NO_ENTRY then 1 else 0) + 3)"

text \<open>
  A run of platform calls, each guarded by \<open>COE\<close>: it stops at the first call that
  reports an error.
\<close>

fun call_or_error :: "platform \<Rightarrow> sys_call list \<Rightarrow> bool \<times> sys_call list" where
  "call_or_error P [] = (True, [])"
| "call_or_error P (c # cs) =
     (if sys_fails P c then (False, [c])
      else (case call_or_error P cs of (ok, made) \<Rightarrow> (ok, c # made)))"

text \<open>
  The entries \<open>pack_smb_acl\<close> creates, in order: tag type, qualifier, access bits
  (lines 389-437).
\<close>

definition is_user :: "id_access \<Rightarrow> bool" where
  "is_user ida = (access ida AND NAME_IS_USER \<noteq> 0)"

definition pack_plan :: "platform \<Rightarrow> rsync_acl \<Rightarrow> (SMB_ACL_TAG_T \<times> id_t option \<times> uint32) list" where
  "pack_plan P r =
     [(SMB_ACL_USER_OBJ, None, ucast (user_obj r AND NOT NO_ENTRY))]
     @ (if SMB_ACL_NEED_SORT P
        then map (\<lambda>ida. (SMB_ACL_USER, Some (ida_id ida), access ida AND NOT NAME_IS_USER))
               (takeWhile is_user (names r))
        else map (\<lambda>ida. (if is_user ida then SMB_ACL_USER else SMB_ACL_GROUP,
                          Some (ida_id ida), access ida AND NOT NAME_IS_USER))
               (names r))
     @ [(SMB_ACL_GROUP_OBJ, None, ucast (group_obj r AND NOT NO_ENTRY))]
     @ (if SMB_ACL_NEED_SORT P
        then map (\<lambda>ida. (SMB_ACL_GROUP, Some (ida_id ida), access ida))
               (dropWhile is_user (names r))
        else [])
     @ (if ACLS_NEED_MASK P
        then [(SMB_ACL_MASK, None,
               ucast (if mask_obj r = NO_ENTRY then group_obj r AND NOT NO_ENTRY
                      else mask_obj r))]
        else if mask_obj r \<noteq> NO_ENTRY then [(SMB_ACL_MASK, None, ucast (mask_obj r))]
        else [])
     @ [(SMB_ACL_OTHER, None, ucast (other_obj r AND NOT NO_ENTRY))]"

fun pack_entries ::
  "platform \<Rightarrow> (SMB_ACL_TAG_T \<times> id_t option \<times> uint32) list \<Rightarrow> SMB_ACL_T
   \<Rightarrow> bool \<times> SMB_ACL_T \<times> sys_call list" where
  "pack_entries P [] acl = (True, acl, [])"
| "pack_entries P ((tag, q, bits) # plan) acl =
     (case call_or_error P
             ([Sys_acl_create_entry, Sys_acl_set_tag_type tag]
              @ (case q of None \<Rightarrow> [] | Some i \<Rightarrow> [Sys_acl_set_qualifier i])
              @ [Sys_acl_set_access_bits bits]) of
        (False, made) \<Rightarrow> (False, acl, made)
      | (True, made) \<Rightarrow>
          (case pack_entries P plan
                  (acl @ [\<lparr>tag_type = tag, qualifier = q, access_bits = bits\<rparr>]) of
             (ok, acl', made') \<Rightarrow> (ok, acl', made @ made')))"

text \<open>
  \<open>pack_smb_acl\<close>: the result is the \<open>BOOL\<close>, what \<open>*smb_acl\<close> holds afterwards
  and the calls made. After an error past \<open>sys_acl_init\<close> the ACL has been freed
  and \<open>*smb_acl\<close> still points to it.
\<close>

definition pack_smb_acl :: "platform \<Rightarrow> rsync_acl \<Rightarrow> bool \<times> sacl_ptr \<times> sys_call list" where
  "pack_smb_acl P r =
     (if sys_fails P (Sys_acl_init (calc_sacl_entries P r))
      then (False, Sacl_null, [Sys_acl_init (calc_sacl_entries P r)])
      else (case pack_entries P (pack_plan P r) [] of
              (True, acl, made) \<Rightarrow>
                (True, Sacl acl, Sys_acl_init (calc_sacl_entries P r) # made)
            | (False, acl, made) \<Rightarrow>
                (False, Sacl_freed,
                 Sys_acl_init (calc_sacl_entries P r) # made @ [Sys_acl_free_acl])))"


text \<open>
  The loop of \<open>change_sacl_perms\<close> over the entries of \<open>sacl\<close> (lines 802-833):
  \<open>i\<close> is the position of the entry that \<open>sys_acl_get_entry\<close> is asked for. The
  result is whether the loop ended without an error, the entries and the calls made.
\<close>

definition perm_for_tag :: "platform \<Rightarrow> rsync_acl \<Rightarrow> mode_t \<Rightarrow> SMB_ACL_TAG_T \<Rightarrow> uint32 option" where
  "perm_for_tag P r mode tag =
     (case tag of
        SMB_ACL_USER_OBJ \<Rightarrow> Some (drop_bit 6 mode AND 7)
      | SMB_ACL_GROUP_OBJ \<Rightarrow>
          if group_obj r \<noteq> NO_ENTRY then None else Some (drop_bit 3 mode AND 7)
      | SMB_ACL_MASK \<Rightarrow>
          if \<not> ACLS_NEED_MASK P \<and> mask_obj r = NO_ENTRY then None
          else Some (drop_bit 3 mode AND 7)
      | SMB_ACL_OTHER \<Rightarrow> Some (mode AND 7)
      | _ \<Rightarrow> None)"

fun change_loop ::
  "platform \<Rightarrow> rsync_acl \<Rightarrow> mode_t \<Rightarrow> nat \<Rightarrow> smb_entry list
   \<Rightarrow> bool \<times> smb_entry list \<times> sys_call list" where
  "change_loop P r mode i [] =
     (\<not> sys_fails P (Sys_acl_get_entry i), [], [Sys_acl_get_entry i])"
| "change_loop P r mode i (entry # rest) =
     (if sys_fails P (Sys_acl_get_entry i) then (False, entry # rest, [Sys_acl_get_entry i])
      else if sys_fails P (Sys_acl_get_tag_type i)
      then (False, entry # rest, [Sys_acl_get_entry i, Sys_acl_get_tag_type i])
      else (case perm_for_tag P r mode (tag_type entry) of
              None \<Rightarrow>
                (case change_loop P r mode (Suc i) rest of
                   (ok, rest', made) \<Rightarrow>
                     (ok, entry # rest',
                      [Sys_acl_get_entry i, Sys_acl_get_tag_type i] @ made))
            | Some bits \<Rightarrow>
                if sys_fails P (Sys_acl_set_access_bits bits)
                then (False, entry # rest,
                      [Sys_acl_get_entry i, Sys_acl_get_tag_type i,
                       Sys_acl_set_access_bits bits])
                else (case change_loop P r mode (Suc i) rest of
                        (ok, rest', made) \<Rightarrow>
                          (ok, entry\<lparr>access_bits := bits\<rparr> # rest',
                           [Sys_acl_get_entry i, Sys_acl_get_tag_type i,
                            Sys_acl_set_access_bits bits] @ made))))"

text \<open>
  Lines 784-800, with the \<open>#ifdef SMB_ACL_LOSES_SPECIAL_MODE_BITS\<close> as written: the
  \<open>else\<close> branch for a non-directory belongs to the \<open>#else\<close> part.
\<close>

definition safe_mode :: "platform \<Rightarrow> mode_t \<Rightarrow> mode_t \<Rightarrow> mode_t" where
  "safe_mode P old_mode mode =
     (if SMB_ACL_LOSES_SPECIAL_MODE_BITS P then
        (if S_ISDIR mode then
           (if mode AND S_ISVTX \<noteq> 0 then mode AND NOT 0x3F else mode)
         else mode)
      else
        (if S_ISDIR mode then
           (if mode AND S_ISVTX \<noteq> 0 \<and> \<not> (old_mode AND S_ISVTX \<noteq> 0)
            then mode AND NOT 0x3F else mode)
         else
           (if (old_mode AND S_ISUID \<noteq> 0 \<and> \<not> (mode AND S_ISUID \<noteq> 0))
               \<or> (old_mode AND S_ISGID \<noteq> 0 \<and> \<not> (mode AND S_ISGID \<noteq> 0))
            then mode AND NOT 0x3F else mode)))"

text \<open>
  Lines 802-851: the loop and the returned mode, for the mode that line 800 leaves
  in \<open>mode\<close>. The result is the returned mode (\<open>(mode_t)~0\<close> after an error), the
  entries of \<open>sacl\<close> afterwards and the calls made.
\<close>

definition store_mode_perms ::
  "platform \<Rightarrow> SMB_ACL_T \<Rightarrow> rsync_acl \<Rightarrow> mode_t \<Rightarrow> mode_t
   \<Rightarrow> mode_t \<times> SMB_ACL_T \<times> sys_call list" where
  "store_mode_perms P sacl0 r old_mode mode =
     (case change_loop P r mode 0 sacl0 of
        (False, sacl1, made) \<Rightarrow> (NOT 0, sacl1, made)
      | (True, sacl1, made) \<Rightarrow>
          (let old_mode =
                 (if SMB_ACL_LOSES_SPECIAL_MODE_BITS P
                     \<and> old_mode AND (S_ISUID OR S_ISGID OR S_ISVTX) \<noteq> 0
                     \<and> BITS_EQUAL old_mode mode CHMOD_BITS
                  then old_mode AND NOT (S_ISUID OR S_ISGID OR S_ISVTX)
                  else old_mode)
           in ((old_mode AND NOT ACCESSPERMS) OR (mode AND ACCESSPERMS), sacl1, made)))"

text \<open>\<open>change_sacl_perms\<close> (lines 778-852).\<close>

definition change_sacl_perms ::
  "platform \<Rightarrow> SMB_ACL_T \<Rightarrow> rsync_acl \<Rightarrow> mode_t \<Rightarrow> mode_t
   \<Rightarrow> mode_t \<times> SMB_ACL_T \<times> sys_call list" where
  "change_sacl_perms P sacl0 r old_mode mode =
     store_mode_perms P sacl0 r old_mode (safe_mode P old_mode mode)"

text \<open>
  \<open>set_rsync_acl\<close>: \<open>st_mode\<close> is \<open>sxp->st.st_mode\<close>. The result is the return
  value, \<open>*duo_item\<close> and \<open>sxp->st.st_mode\<close> afterwards, and the calls made. Using a
  \<open>sacl\<close> that an earlier failed \<open>pack_smb_acl\<close> has freed is undefined in C. (After
  a successful \<open>pack_smb_acl\<close> the pointer is live, so the \<open>Sacl_null\<close> case of the
  inner \<open>case\<close> does not arise.)
\<close>

datatype undefined_behaviour = Use_of_freed_sacl

definition set_rsync_acl ::
  "platform \<Rightarrow> string \<Rightarrow> acl_duo \<Rightarrow> SMB_ACL_TYPE_T \<Rightarrow> mode_t \<Rightarrow> mode_t
   \<Rightarrow> undefined_behaviour + (int \<times> acl_duo \<times> mode_t \<times> sys_call list)" where
  "set_rsync_acl P fname duo_item type st_mode mode =
     (if type = SMB_ACL_TYPE_DEFAULT \<and> user_obj (racl duo_item) = NO_ENTRY then
        (if sys_fails P (Sys_acl_delete_def_file fname)
         then Inr (- 1, duo_item, st_mode, [Sys_acl_delete_def_file fname])
         else Inr (0, duo_item, st_mode, [Sys_acl_delete_def_file fname]))
      else
        (let (ok, ptr, made1) =
               (if sacl duo_item = Sacl_null then pack_smb_acl P (racl duo_item)
                else (True, sacl duo_item, []));
             duo_item = duo_item\<lparr>sacl := ptr\<rparr>
         in if \<not> ok then Inr (- 1, duo_item, st_mode, made1)
            else (case ptr of
                    Sacl_freed \<Rightarrow> Inl Use_of_freed_sacl
                  | Sacl_null \<Rightarrow> Inl Use_of_freed_sacl
                  | Sacl acl \<Rightarrow>
                      (let (cur_mode, acl, made2) =
                             (if type = SMB_ACL_TYPE_ACCESS
                              then change_sacl_perms P acl (racl duo_item) st_mode mode
                              else (st_mode, acl, []));
                           duo_item = duo_item\<lparr>sacl := Sacl acl\<rparr>
                       in if type = SMB_ACL_TYPE_ACCESS \<and> cur_mode = NOT 0
                          then Inr (0, duo_item, st_mode, made1 @ made2)
                          else if sys_fails P (Sys_acl_set_file fname type acl)
                          then Inr (- 1, duo_item, st_mode,
                                    made1 @ made2 @ [Sys_acl_set_file fname type acl])
                          else Inr (0, duo_item,
                                    if type = SMB_ACL_TYPE_ACCESS then cur_mode else st_mode,
                                    made1 @ made2 @ [Sys_acl_set_file fname type acl])))))"


section \<open>The values the spec speaks about\<close>

text \<open>
  A permission slot of the spec is "an optional 3-bit value (0-7) or absent"; a named
  entry carries a 3-bit permission and the user flag (\<open>NAME_IS_USER\<close> in \<open>access\<close>).
  A NormalizedAcl is an \<open>rsync_acl\<close> whose slots and entries are of that form; it is
  fully populated when the three slots that mirror the mode are present.
\<close>

definition perm_slot :: "uchar \<Rightarrow> bool" where
  "perm_slot x = (x = NO_ENTRY \<or> x \<le> 7)"

definition named_entry :: "id_access \<Rightarrow> bool" where
  "named_entry ida = (access ida AND NOT NAME_IS_USER \<le> 7)"

definition normalized_acl :: "rsync_acl \<Rightarrow> bool" where
  "normalized_acl r =
     (perm_slot (user_obj r) \<and> perm_slot (group_obj r) \<and> perm_slot (mask_obj r)
      \<and> perm_slot (other_obj r) \<and> list_all named_entry (names r))"

definition fully_populated :: "rsync_acl \<Rightarrow> bool" where
  "fully_populated r =
     (user_obj r \<noteq> NO_ENTRY \<and> group_obj r \<noteq> NO_ENTRY \<and> other_obj r \<noteq> NO_ENTRY)"

text \<open>The bitwise OR of the access bits of the named entries of a list, as a byte.\<close>

fun or_access :: "id_access list \<Rightarrow> uchar" where
  "or_access [] = 0"
| "or_access (ida # rest) = ucast (access ida AND NOT NAME_IS_USER) OR or_access rest"

text \<open>
  An endpoint that transfers numeric ids only: no names are sent and no received id
  is mapped.
\<close>

definition numeric_env :: env where
  "numeric_env =
     \<lparr>inc_recurse = False, am_root = True, numeric_ids = True,
      add_uid = (\<lambda>i. None), add_gid = (\<lambda>i. None),
      match_uid = (\<lambda>i. i), match_gid = (\<lambda>i. i),
      user_name_id = (\<lambda>n i. i), group_name_id = (\<lambda>n i. i)\<rparr>"

text \<open>
  The entries of a system ACL after the permission of mode \<open>m\<close> has been stored in
  each entry that \<open>change_sacl_perms\<close> rewrites.
\<close>

definition stored_perms :: "platform \<Rightarrow> rsync_acl \<Rightarrow> mode_t \<Rightarrow> SMB_ACL_T \<Rightarrow> SMB_ACL_T" where
  "stored_perms P r m acl =
     map (\<lambda>entry. case perm_for_tag P r m (tag_type entry) of
                     None \<Rightarrow> entry
                   | Some bits \<Rightarrow> entry\<lparr>access_bits := bits\<rparr>) acl"

text \<open>
  Two platforms on which no call fails: one that keeps the special mode bits when an
  ACL is written and needs a mask, and one that loses them.
\<close>

definition keeping_platform :: platform where
  "keeping_platform =
     \<lparr>ACLS_NEED_MASK = True, SMB_ACL_NEED_SORT = False,
      SMB_ACL_LOSES_SPECIAL_MODE_BITS = False, sys_fails = (\<lambda>c. False)\<rparr>"

definition losing_platform :: platform where
  "losing_platform =
     \<lparr>ACLS_NEED_MASK = False, SMB_ACL_NEED_SORT = False,
      SMB_ACL_LOSES_SPECIAL_MODE_BITS = True, sys_fails = (\<lambda>c. False)\<rparr>"

text \<open>
  An endpoint with incremental recursion that knows a name for uid 1001 and keeps
  every received id.
\<close>

definition named_env :: env where
  "named_env =
     \<lparr>inc_recurse = True, am_root = True, numeric_ids = False,
      add_uid = (\<lambda>i. if i = 1001 then Some ''alice'' else None), add_gid = (\<lambda>i. None),
      match_uid = (\<lambda>i. i), match_gid = (\<lambda>i. i),
      user_name_id = (\<lambda>n i. i), group_name_id = (\<lambda>n i. i)\<rparr>"

text \<open>
  The cursor of a list type is usable on a list of \<open>n\<close> elements: it is -1 (none)
  or the index of an element.
\<close>

definition cursor_in_range :: "SMB_ACL_TYPE_T \<Rightarrow> match_state \<Rightarrow> nat \<Rightarrow> bool" where
  "cursor_in_range type st n =
     (let m = (if type = SMB_ACL_TYPE_ACCESS then access_match st else default_match st)
      in m = - 1 \<or> (0 \<le> m \<and> m < int n))"

definition set_cursor :: "SMB_ACL_TYPE_T \<Rightarrow> int \<Rightarrow> match_state \<Rightarrow> match_state" where
  "set_cursor type m st =
     (if type = SMB_ACL_TYPE_ACCESS then st\<lparr>access_match := m\<rparr> else st\<lparr>default_match := m\<rparr>)"

text \<open>An ACL carries a mask exactly when it carries named entries.\<close>

definition mask_iff_names :: "rsync_acl \<Rightarrow> bool" where
  "mask_iff_names r = ((mask_obj r \<noteq> NO_ENTRY) = (names r \<noteq> []))"


section \<open>Facts about bytes and permission bits\<close>

lemma and_exp_cases: "(a::'a::len word) AND 2 ^ n = (if bit a n then 2 ^ n else 0)"
  by (rule bit_word_eqI) (auto simp: bit_simps)

lemma word_le_7_cases:
  assumes "(x::'a::len word) \<le> 7"
  shows "x = 0 \<or> x = 1 \<or> x = 2 \<or> x = 3 \<or> x = 4 \<or> x = 5 \<or> x = 6 \<or> x = 7"
proof -
  from assms have "unat x \<le> unat (7::'a word)" by (simp add: word_le_nat_alt)
  also have "\<dots> \<le> 7" by simp
  finally have "unat x = 0 \<or> unat x = 1 \<or> unat x = 2 \<or> unat x = 3 \<or> unat x = 4
             \<or> unat x = 5 \<or> unat x = 6 \<or> unat x = 7" by arith
  moreover have "of_nat (unat x) = x" by simp
  ultimately show ?thesis by (elim disjE) simp_all
qed

lemma and_128: "(x::uchar) AND 0x80 = (if bit x 7 then 0x80 else 0)"
  using and_exp_cases[of x 7] by simp

lemma xor_NO_ENTRY: "((a XOR b) AND NO_ENTRY \<noteq> 0) = (bit a 7 \<noteq> bit b 7)"
  by (simp add: NO_ENTRY_def and_128 bit_xor_iff)

lemma perm_slot_bit7: "perm_slot x \<Longrightarrow> bit x 7 = (x = NO_ENTRY)"
  unfolding perm_slot_def NO_ENTRY_def
  using word_le_7_cases[of x] by auto

lemma ida_entries_equal_iff: "ida_entries_equal xs ys = (xs = ys)"
proof -
  have "length xs = length ys \<Longrightarrow> ida_entries_loop xs ys = (xs = ys)"
    by (induction xs ys rule: ida_entries_loop.induct) auto
  then show ?thesis by (auto simp: ida_entries_equal_def)
qed

lemma rsync_acl_equal_iff: "rsync_acl_equal r1 r2 = (r1 = r2)"
  by (cases r1, cases r2) (auto simp: rsync_acl_equal_def ida_entries_equal_iff)

section \<open>Equal enough relative to a mode\<close>

text \<open>
  C2. For two NormalizedAcl values, the first fully populated and the second possibly
  condensed, \<open>rsync_acl_equal_enough\<close> holds relative to a mode \<open>m\<close> if and only if
  both have a mask or both lack one; when a mask is present, the group slots match
  exactly or the second group slot is absent and the first equals \<open>(m >> 3) & 7\<close>;
  and the two named-entry sequences are equal.
\<close>

theorem rsync_acl_equal_enough_iff:
  assumes "normalized_acl r1" and "normalized_acl r2" and "fully_populated r1"
  shows "rsync_acl_equal_enough r1 r2 m =
           (((mask_obj r1 \<noteq> NO_ENTRY) = (mask_obj r2 \<noteq> NO_ENTRY))
            \<and> (mask_obj r1 \<noteq> NO_ENTRY \<longrightarrow>
                 group_obj r1 = group_obj r2
                 \<or> (group_obj r2 = NO_ENTRY \<and> ucast (group_obj r1) = drop_bit 3 m AND 7))
            \<and> names r1 = names r2)"
proof -
  from assms have m1: "bit (mask_obj r1) 7 = (mask_obj r1 = NO_ENTRY)"
    and m2: "bit (mask_obj r2) 7 = (mask_obj r2 = NO_ENTRY)"
    by (simp_all add: normalized_acl_def perm_slot_bit7)
  from assms have g1: "group_obj r1 \<noteq> NO_ENTRY" by (simp add: fully_populated_def)
  show ?thesis
    unfolding rsync_acl_equal_enough_def xor_NO_ENTRY m1 m2 ida_entries_equal_iff
    using g1 by auto
qed

text \<open>
  The boundary case of the spec: mask \<open>rwx\<close> and group \<open>r-x\<close> on disk, a condensed
  target with mask \<open>rwx\<close> and no group slot. Under mode 0750 (\<open>0x1E8\<close>) the two are
  equal enough, under mode 0770 (\<open>0x1F8\<close>) they are not.
\<close>

theorem rsync_acl_equal_enough_iff_witness:
  "normalized_acl \<lparr>names = [\<lparr>ida_id = 1001, access = 0x80000007\<rparr>], user_obj = 7,
                    group_obj = 5, mask_obj = 7, other_obj = 0\<rparr>
   \<and> normalized_acl \<lparr>names = [\<lparr>ida_id = 1001, access = 0x80000007\<rparr>], user_obj = 0x80,
                      group_obj = 0x80, mask_obj = 7, other_obj = 0x80\<rparr>
   \<and> fully_populated \<lparr>names = [\<lparr>ida_id = 1001, access = 0x80000007\<rparr>], user_obj = 7,
                       group_obj = 5, mask_obj = 7, other_obj = 0\<rparr>
   \<and> rsync_acl_equal_enough
        \<lparr>names = [\<lparr>ida_id = 1001, access = 0x80000007\<rparr>], user_obj = 7,
         group_obj = 5, mask_obj = 7, other_obj = 0\<rparr>
        \<lparr>names = [\<lparr>ida_id = 1001, access = 0x80000007\<rparr>], user_obj = 0x80,
         group_obj = 0x80, mask_obj = 7, other_obj = 0x80\<rparr> 0x1E8
   \<and> \<not> rsync_acl_equal_enough
        \<lparr>names = [\<lparr>ida_id = 1001, access = 0x80000007\<rparr>], user_obj = 7,
         group_obj = 5, mask_obj = 7, other_obj = 0\<rparr>
        \<lparr>names = [\<lparr>ida_id = 1001, access = 0x80000007\<rparr>], user_obj = 0x80,
         group_obj = 0x80, mask_obj = 7, other_obj = 0x80\<rparr> 0x1F8"
proof -
  let ?r1 = "\<lparr>names = [\<lparr>ida_id = 1001, access = 0x80000007\<rparr>], user_obj = 7,
              group_obj = 5, mask_obj = 7, other_obj = 0\<rparr>"
  let ?r2 = "\<lparr>names = [\<lparr>ida_id = 1001, access = 0x80000007\<rparr>], user_obj = 0x80,
              group_obj = 0x80, mask_obj = 7, other_obj = 0x80\<rparr>"
  have n1: "normalized_acl ?r1"
    by (simp add: normalized_acl_def perm_slot_def named_entry_def NO_ENTRY_def
        NAME_IS_USER_def)
  have n2: "normalized_acl ?r2"
    by (simp add: normalized_acl_def perm_slot_def named_entry_def NO_ENTRY_def
        NAME_IS_USER_def)
  have f1: "fully_populated ?r1" by (simp add: fully_populated_def NO_ENTRY_def)
  have "rsync_acl_equal_enough ?r1 ?r2 0x1E8"
    using rsync_acl_equal_enough_iff[OF n1 n2 f1, of "0x1E8"] by (simp add: NO_ENTRY_def)
  moreover have "\<not> rsync_acl_equal_enough ?r1 ?r2 0x1F8"
    using rsync_acl_equal_enough_iff[OF n1 n2 f1, of "0x1F8"] by (simp add: NO_ENTRY_def)
  ultimately show ?thesis using n1 n2 f1 by simp
qed


section \<open>Stripping and rebuilding the permission slots\<close>

text \<open>
  C4, as the code has it. \<open>rsync_acl_strip_perms\<close> sets the owning-user and other
  slots to absent unconditionally; when no mask is present it also sets the group
  slot to absent; when a mask is present it sets the group slot to absent when the
  group slot equalled the mask and keeps it otherwise; the mask slot is set to absent
  in every case, and the named entries are kept.
\<close>

theorem rsync_acl_strip_perms_slots:
  "user_obj (rsync_acl_strip_perms r) = NO_ENTRY
   \<and> other_obj (rsync_acl_strip_perms r) = NO_ENTRY
   \<and> group_obj (rsync_acl_strip_perms r) =
       (if mask_obj r = NO_ENTRY then NO_ENTRY
        else if group_obj r = mask_obj r then NO_ENTRY else group_obj r)
   \<and> mask_obj (rsync_acl_strip_perms r) = NO_ENTRY
   \<and> names (rsync_acl_strip_perms r) = names r"
  by (simp add: rsync_acl_strip_perms_def Let_def)

text \<open>
  C4 as stated has the mask cleared only if it equalled the group slot. With mask
  \<open>rwx\<close> and group \<open>r-x\<close> the mask is present, differs from the group slot, and is
  cleared all the same.
\<close>

theorem rsync_acl_strip_perms_mask_counterexample:
  "mask_obj \<lparr>names = [], user_obj = 7, group_obj = 5, mask_obj = 7, other_obj = 5\<rparr>
     \<noteq> NO_ENTRY
   \<and> mask_obj \<lparr>names = [], user_obj = 7, group_obj = 5, mask_obj = 7, other_obj = 5\<rparr>
     \<noteq> group_obj \<lparr>names = [], user_obj = 7, group_obj = 5, mask_obj = 7, other_obj = 5\<rparr>
   \<and> mask_obj (rsync_acl_strip_perms
        \<lparr>names = [], user_obj = 7, group_obj = 5, mask_obj = 7, other_obj = 5\<rparr>)
     = NO_ENTRY"
  by (simp add: rsync_acl_strip_perms_def NO_ENTRY_def)

text \<open>
  C9, as the code has it. For every fully populated ACL \<open>v\<close> that has no mask slot,
  stripping \<open>v\<close> and filling the permission slots again from the mode
  \<open>rsync_acl_get_perms v\<close> gives a value that is equal enough to \<open>v\<close> relative to that
  mode.
\<close>

theorem strip_then_fake_perms_equal_enough:
  assumes "fully_populated v" and "mask_obj v = NO_ENTRY"
  shows "rsync_acl_equal_enough v
           (rsync_acl_fake_perms (rsync_acl_strip_perms v) (rsync_acl_get_perms v))
           (rsync_acl_get_perms v)"
  using assms
  by (simp add: rsync_acl_equal_enough_def rsync_acl_fake_perms_def
      rsync_acl_strip_perms_def ida_entries_equal_iff)

theorem strip_then_fake_perms_equal_enough_witness:
  "fully_populated \<lparr>names = [], user_obj = 7, group_obj = 5, mask_obj = 0x80, other_obj = 5\<rparr>
   \<and> mask_obj \<lparr>names = [], user_obj = 7, group_obj = 5, mask_obj = 0x80, other_obj = 5\<rparr>
       = NO_ENTRY
   \<and> rsync_acl_equal_enough
        \<lparr>names = [], user_obj = 7, group_obj = 5, mask_obj = 0x80, other_obj = 5\<rparr>
        (rsync_acl_fake_perms
          (rsync_acl_strip_perms
            \<lparr>names = [], user_obj = 7, group_obj = 5, mask_obj = 0x80, other_obj = 5\<rparr>)
          (rsync_acl_get_perms
            \<lparr>names = [], user_obj = 7, group_obj = 5, mask_obj = 0x80, other_obj = 5\<rparr>))
        (rsync_acl_get_perms
          \<lparr>names = [], user_obj = 7, group_obj = 5, mask_obj = 0x80, other_obj = 5\<rparr>)"
proof -
  let ?v = "\<lparr>names = [], user_obj = 7, group_obj = 5, mask_obj = 0x80, other_obj = 5\<rparr>"
  have f: "fully_populated ?v" by (simp add: fully_populated_def NO_ENTRY_def)
  have m: "mask_obj ?v = NO_ENTRY" by (simp add: NO_ENTRY_def)
  from strip_then_fake_perms_equal_enough[OF f m] f m show ?thesis by simp
qed

text \<open>
  C9 as stated covers every fully populated value. A value with a mask and a named
  entry is fully populated and normalized, its mode is 0775 (\<open>509\<close>), and it is not
  equal enough to the stripped and refilled value; nor to the stripped value itself;
  nor is the ACL made from the mode alone equal enough to the stripped value.
\<close>

theorem strip_then_fake_perms_counterexample:
  "fully_populated \<lparr>names = [\<lparr>ida_id = 1001, access = 0x80000007\<rparr>], user_obj = 7,
                     group_obj = 5, mask_obj = 7, other_obj = 5\<rparr>
   \<and> normalized_acl \<lparr>names = [\<lparr>ida_id = 1001, access = 0x80000007\<rparr>], user_obj = 7,
                      group_obj = 5, mask_obj = 7, other_obj = 5\<rparr>
   \<and> rsync_acl_get_perms \<lparr>names = [\<lparr>ida_id = 1001, access = 0x80000007\<rparr>], user_obj = 7,
                           group_obj = 5, mask_obj = 7, other_obj = 5\<rparr> = 509
   \<and> \<not> rsync_acl_equal_enough
         \<lparr>names = [\<lparr>ida_id = 1001, access = 0x80000007\<rparr>], user_obj = 7,
          group_obj = 5, mask_obj = 7, other_obj = 5\<rparr>
         (rsync_acl_fake_perms
           (rsync_acl_strip_perms
             \<lparr>names = [\<lparr>ida_id = 1001, access = 0x80000007\<rparr>], user_obj = 7,
              group_obj = 5, mask_obj = 7, other_obj = 5\<rparr>) 509) 509
   \<and> \<not> rsync_acl_equal_enough
         \<lparr>names = [\<lparr>ida_id = 1001, access = 0x80000007\<rparr>], user_obj = 7,
          group_obj = 5, mask_obj = 7, other_obj = 5\<rparr>
         (rsync_acl_strip_perms
           \<lparr>names = [\<lparr>ida_id = 1001, access = 0x80000007\<rparr>], user_obj = 7,
            group_obj = 5, mask_obj = 7, other_obj = 5\<rparr>) 509
   \<and> \<not> rsync_acl_equal_enough
         (rsync_acl_fake_perms empty_rsync_acl 509)
         (rsync_acl_strip_perms
           \<lparr>names = [\<lparr>ida_id = 1001, access = 0x80000007\<rparr>], user_obj = 7,
            group_obj = 5, mask_obj = 7, other_obj = 5\<rparr>) 509"
  by (simp add: fully_populated_def normalized_acl_def perm_slot_def named_entry_def
      NO_ENTRY_def NAME_IS_USER_def rsync_acl_get_perms_def rsync_acl_equal_enough_def
      rsync_acl_fake_perms_def rsync_acl_strip_perms_def empty_rsync_acl_def
      ida_entries_equal_def)


text \<open>
  For a normalized value and any mode, the stripped and refilled value is equal enough
  to the original exactly when the original has no mask.
\<close>

lemma strip_then_fake_perms_equal_enough_iff:
  assumes "normalized_acl v"
  shows "rsync_acl_equal_enough v
           (rsync_acl_fake_perms (rsync_acl_strip_perms v) m) m
         = (mask_obj v = NO_ENTRY)"
proof -
  from assms have "bit (mask_obj v) 7 = (mask_obj v = NO_ENTRY)"
    by (simp add: normalized_acl_def perm_slot_bit7)
  moreover have "bit NO_ENTRY 7" by (simp add: NO_ENTRY_def)
  ultimately show ?thesis
    by (auto simp: rsync_acl_equal_enough_def rsync_acl_fake_perms_def
        rsync_acl_strip_perms_def Let_def xor_NO_ENTRY ida_entries_equal_iff)
qed

section \<open>Decoding a literal ACL\<close>

lemma and_not7_uint32: "((x::uint32) AND NOT 7 = 0) = (x \<le> 7)"
proof
  assume a: "x AND NOT 7 = 0"
  have "x = (x AND 7) OR (x AND NOT 7)"
    by (simp add: bit_eq_iff bit_simps) blast
  with a have "x = x AND 7" by simp
  then show "x \<le> 7" by (metis word_and_le1)
next
  assume "x \<le> 7"
  from word_le_7_cases[OF this] show "x AND NOT 7 = 0" by (elim disjE) simp_all
qed

lemma and_minus8_uint32: "((x::uint32) AND - 8 = 0) = (x \<le> 7)"
  using and_not7_uint32[of x] by simp

lemma ucast_le7: "(x::uint32) \<le> 7 \<Longrightarrow> (ucast x :: uchar) \<le> 7"
  by (auto dest!: word_le_7_cases)

lemma recv_acl_access_obj:
  assumes "recv_acl_access False f = Inr (a, nf, f')"
  shows "a \<le> 7 \<and> (\<exists>v. f = Varint v # f' \<and> a = v)"
  using assms
  by (auto simp: recv_acl_access_def read_varint_def SMB_ACL_VALID_OBJ_BITS_def and_minus8_uint32
      split: sum.splits list.splits wire.splits if_splits)

lemma recv_acl_access_name:
  assumes "recv_acl_access True f = Inr (a, nf, f')"
  shows "\<exists>p. p \<le> 7 \<and> (a = p \<or> a = p OR NAME_IS_USER)"
  using assms
  by (auto simp: recv_acl_access_def read_varint_def SMB_ACL_VALID_NAME_BITS_def and_minus8_uint32 Let_def
      split: sum.splits list.splits wire.splits if_splits)

lemma named_entry_cases:
  "(\<exists>p. p \<le> 7 \<and> (a = p \<or> a = p OR NAME_IS_USER)) \<Longrightarrow> named_entry \<lparr>ida_id = i, access = a\<rparr> \<and> (ucast a :: uchar) \<le> 7
    \<and> ucast (a AND NOT NAME_IS_USER) = (ucast a :: uchar)"
  unfolding named_entry_def NAME_IS_USER_def
  by (auto dest!: word_le_7_cases)

lemma ucast_le7_ne: "(x::uint32) \<le> 7 \<Longrightarrow> (ucast x :: uchar) \<noteq> 0x80"
  by (auto dest!: word_le_7_cases)

lemma recv_obj_Inr:
  assumes "recv_obj flags xmit NO_ENTRY f = Inr (x, f')"
  shows "perm_slot x \<and> (x = NO_ENTRY) = (flags AND xmit = 0)"
  using assms
  by (auto simp: recv_obj_def perm_slot_def NO_ENTRY_def ucast_le7 ucast_le7_ne split: if_splits sum.splits dest!: recv_acl_access_obj)


lemma or_access_append: "or_access (xs @ ys) = or_access xs OR or_access ys"
  by (induction xs) (simp_all add: or.assoc)

lemma recv_ida_loop_Inr:
  "recv_ida_loop E k f idas0 c0 = Inr (idas, c, f') \<Longrightarrow>
     \<exists>new. idas = idas0 @ new \<and> length new = k \<and> list_all named_entry new
           \<and> c = c0 OR or_access new"
proof (induction k arbitrary: f idas0 c0)
  case 0
  then show ?case by simp
next
  case (Suc k)
  from Suc.prems obtain id0 f1 a hn f2 id1 f3 where
    a: "recv_acl_access True f1 = Inr (a, hn, f2)"
    and r: "recv_ida_loop E k f3 (idas0 @ [\<lparr>ida_id = id1, access = a\<rparr>]) (c0 OR ucast a)
            = Inr (idas, c, f')"
    by (auto split: sum.splits)
  from recv_acl_access_name[OF a] named_entry_cases[of a id1]
  have n: "named_entry \<lparr>ida_id = id1, access = a\<rparr>"
    and u: "ucast (a AND NOT NAME_IS_USER) = (ucast a :: uchar)" by blast+
  from Suc.IH[OF r] obtain new where
    "idas = (idas0 @ [\<lparr>ida_id = id1, access = a\<rparr>]) @ new" "length new = k"
    "list_all named_entry new" "c = (c0 OR ucast a) OR or_access new" by blast
  with n u show ?case
    by (intro exI[of _ "\<lparr>ida_id = id1, access = a\<rparr> # new"]) (simp add: or.assoc)
qed

lemma recv_ida_entries_Inr:
  assumes "recv_ida_entries E f = Inr (idas, c, f')"
  shows "list_all named_entry idas \<and> c = or_access idas AND NOT NO_ENTRY"
  using assms
  by (auto simp: recv_ida_entries_def split: sum.splits if_splits dest!: recv_ida_loop_Inr)


lemma or_le7: "(x::uchar) \<le> 7 \<Longrightarrow> y \<le> 7 \<Longrightarrow> x OR y \<le> 7"
  by (auto dest!: word_le_7_cases)

lemma named_entry_ucast: "named_entry ida \<Longrightarrow> (ucast (access ida AND NOT NAME_IS_USER) :: uchar) \<le> 7"
  by (simp add: named_entry_def ucast_le7)

lemma or_access_le7: "list_all named_entry xs \<Longrightarrow> or_access xs \<le> 7"
  by (induction xs) (simp_all add: or_le7 named_entry_ucast)

lemma recv_literal_fields_Inr:
  assumes "recv_literal_fields E f = Inr (r, c, f')"
  shows "normalized_acl r \<and> c = or_access (names r) AND NOT NO_ENTRY
         \<and> (\<exists>flags f0. f = Byte flags # f0 \<and> (mask_obj r = NO_ENTRY) = (flags AND XMIT_MASK_OBJ = 0))"
proof -
  from assms obtain flags f0 u f1 g f2 m f3 ot f4 idas bits where
    b: "read_byte f = Inr (flags, f0)"
    and u: "recv_obj flags XMIT_USER_OBJ NO_ENTRY f0 = Inr (u, f1)"
    and g: "recv_obj flags XMIT_GROUP_OBJ NO_ENTRY f1 = Inr (g, f2)"
    and m: "recv_obj flags XMIT_MASK_OBJ NO_ENTRY f2 = Inr (m, f3)"
    and ot: "recv_obj flags XMIT_OTHER_OBJ NO_ENTRY f3 = Inr (ot, f4)"
    and n: "(if flags AND XMIT_NAME_LIST \<noteq> 0 then recv_ida_entries E f4
             else Inr (names empty_rsync_acl, 0, f4)) = Inr (idas, bits, f')"
    and r: "r = \<lparr>names = idas, user_obj = u, group_obj = g, mask_obj = m, other_obj = ot\<rparr>"
    and c: "c = bits"
    by (auto simp: recv_literal_fields_def empty_rsync_acl_def split: sum.splits)
  from n have "list_all named_entry idas \<and> bits = or_access idas AND NOT NO_ENTRY"
    by (auto simp: empty_rsync_acl_def split: if_splits dest: recv_ida_entries_Inr)
  moreover from b have "f = Byte flags # f0"
    by (auto simp: read_byte_def split: list.splits wire.splits)
  ultimately show ?thesis
    using recv_obj_Inr[OF u] recv_obj_Inr[OF g] recv_obj_Inr[OF m] recv_obj_Inr[OF ot] r c
    by (simp add: normalized_acl_def)
qed

lemma and_not_NO_ENTRY_ne: "x AND NOT NO_ENTRY \<noteq> NO_ENTRY"
proof
  assume "x AND NOT NO_ENTRY = NO_ENTRY"
  then have "bit (x AND NOT NO_ENTRY) 7 = bit NO_ENTRY 7" by simp
  then show False by (simp add: NO_ENTRY_def bit_and_iff bit_not_iff)
qed

lemma recv_mask_fixup_mask_iff_names: "perm_slot (mask_obj r) \<Longrightarrow> mask_iff_names (recv_mask_fixup r c)"
  by (auto simp: recv_mask_fixup_def mask_iff_names_def and_not_NO_ENTRY_ne)

lemma computed_mask:
  assumes "perm_slot g" and "n \<le> 7"
  shows "((n AND NOT NO_ENTRY) OR g) AND NOT NO_ENTRY = (n OR (if g = NO_ENTRY then 0 else g)) AND 7"
  using assms unfolding perm_slot_def NO_ENTRY_def
  by (auto dest!: word_le_7_cases)


lemma recv_rsync_acl_literal:
  assumes "recv_rsync_acl E racl_list type (Varint 0 # f) = Inr (ndx, racl_list', f')"
  shows "\<exists>r c. recv_literal_fields E f = Inr (r, c, f')
            \<and> ndx = int (length racl_list)
            \<and> racl_list' = racl_list @ [\<lparr>racl = recv_mask_fixup r c, sacl = Sacl_null\<rparr>]"
  using assms
  by (auto simp: recv_rsync_acl_def read_varint_def recv_literal_def split: sum.splits)

lemma recv_rsync_acl_reuse:
  assumes "recv_rsync_acl E racl_list type (Varint v # f) = Inr (ndx, racl_list', f')" and "v \<noteq> 0"
  shows "racl_list' = racl_list \<and> f' = f \<and> ndx = sint v - 1 \<and> 0 \<le> ndx \<and> nat ndx < length racl_list"
proof -
  have "sint v \<noteq> 0" using assms(2) by (simp add: signed_eq_0_iff)
  with assms show ?thesis
    by (auto simp: recv_rsync_acl_def read_varint_def split: if_splits)
qed

lemma recv_mask_fixup_names [simp]: "names (recv_mask_fixup r c) = names r"
  by (simp add: recv_mask_fixup_def)

text \<open>
  C3. When a literal ACL is decoded whose named-entry list is non-empty and whose
  mask slot was not transmitted, the mask slot of the new list element is the bitwise
  OR of the access bits of all decoded named entries, OR'd with the group slot's value
  when the group slot is present, restricted to the 3-bit permission range. The
  mask is a function of the complete decoded list \<open>names a\<close>.
\<close>

theorem recv_rsync_acl_computed_mask:
  assumes "recv_rsync_acl E racl_list type (Varint 0 # Byte flags # f) = Inr (ndx, racl_list', f')"
    and "flags AND XMIT_MASK_OBJ = 0"
    and "a = racl (racl_list' ! nat ndx)"
    and "names a \<noteq> []"
  shows "mask_obj a =
           (or_access (names a) OR (if group_obj a = NO_ENTRY then 0 else group_obj a)) AND 7"
proof -
  from recv_rsync_acl_literal[OF assms(1)] obtain r c where
    lit: "recv_literal_fields E (Byte flags # f) = Inr (r, c, f')"
    and a: "a = recv_mask_fixup r c"
    using assms(3) by auto
  from recv_literal_fields_Inr[OF lit] assms(2) have
    n: "normalized_acl r" and c: "c = or_access (names r) AND NOT NO_ENTRY"
    and m: "mask_obj r = NO_ENTRY" by auto
  from assms(4) a have ne: "names r \<noteq> []" by simp
  from n have g: "perm_slot (group_obj r)" and le: "or_access (names r) \<le> 7"
    by (simp_all add: normalized_acl_def or_access_le7)
  from a m ne have "mask_obj a = (c OR group_obj r) AND NOT NO_ENTRY"
    and "group_obj a = group_obj r" and "names a = names r"
    by (simp_all add: recv_mask_fixup_def)
  then show ?thesis using computed_mask[OF g le] c by simp
qed

lemma discard_mask:
  assumes "perm_slot g" and "perm_slot m" and "m \<noteq> NO_ENTRY"
  shows "g AND (m OR NO_ENTRY) = (if g = NO_ENTRY then NO_ENTRY else g AND m)"
  using assms unfolding perm_slot_def NO_ENTRY_def
  by (auto dest!: word_le_7_cases)

lemma recv_mask_fixup_cases:
  assumes "normalized_acl r" and "c = or_access (names r) AND NOT NO_ENTRY"
  shows "(names r = [] \<and> mask_obj r \<noteq> NO_ENTRY \<longrightarrow>
            recv_mask_fixup r c =
              r\<lparr>group_obj := (if group_obj r = NO_ENTRY then NO_ENTRY
                               else group_obj r AND mask_obj r),
                mask_obj := NO_ENTRY\<rparr>)
         \<and> (names r \<noteq> [] \<and> mask_obj r = NO_ENTRY \<longrightarrow>
            recv_mask_fixup r c =
              r\<lparr>mask_obj := (or_access (names r)
                              OR (if group_obj r = NO_ENTRY then 0 else group_obj r)) AND 7\<rparr>)"
proof -
  from assms(1) have g: "perm_slot (group_obj r)" and m: "perm_slot (mask_obj r)"
    and le: "or_access (names r) \<le> 7"
    by (simp_all add: normalized_acl_def or_access_le7)
  show ?thesis
    using discard_mask[OF g m] computed_mask[OF g le] assms(2)
    by (simp add: recv_mask_fixup_def)
qed

text \<open>
  C10. Every list element that \<open>recv_rsync_acl\<close> leaves in a receiver's list has a
  mask exactly when it has named entries, provided the elements already there do;
  the returned index points into the list. In particular, for a literal received
  with a mask but no named entries the mask is discarded after the group slot has
  been ANDed with it, and for a literal received with named entries but no mask the
  mask is made up from the entries and the group slot.
\<close>

theorem recv_rsync_acl_mask_iff_names:
  assumes "recv_rsync_acl E racl_list type f = Inr (ndx, racl_list', f')"
    and "list_all (\<lambda>d. mask_iff_names (racl d)) racl_list"
  shows "list_all (\<lambda>d. mask_iff_names (racl d)) racl_list'
         \<and> 0 \<le> ndx \<and> nat ndx < length racl_list'
         \<and> (\<forall>f1 r c f2. f = Varint 0 # f1 \<and> recv_literal_fields E f1 = Inr (r, c, f2) \<longrightarrow>
               (names r = [] \<and> mask_obj r \<noteq> NO_ENTRY \<longrightarrow>
                  racl (racl_list' ! nat ndx) =
                    r\<lparr>group_obj := (if group_obj r = NO_ENTRY then NO_ENTRY
                                     else group_obj r AND mask_obj r),
                      mask_obj := NO_ENTRY\<rparr>)
               \<and> (names r \<noteq> [] \<and> mask_obj r = NO_ENTRY \<longrightarrow>
                  racl (racl_list' ! nat ndx) =
                    r\<lparr>mask_obj := (or_access (names r)
                                    OR (if group_obj r = NO_ENTRY then 0 else group_obj r)) AND 7\<rparr>))"
proof -
  from assms(1) obtain v f1 where f: "f = Varint v # f1"
    by (auto simp: recv_rsync_acl_def read_varint_def split: list.splits wire.splits)
  show ?thesis
  proof (cases "v = 0")
    case True
    from recv_rsync_acl_literal[OF assms(1)[unfolded f True]] obtain r c where
      lit: "recv_literal_fields E f1 = Inr (r, c, f')"
      and ndx: "ndx = int (length racl_list)"
      and l': "racl_list' = racl_list @ [\<lparr>racl = recv_mask_fixup r c, sacl = Sacl_null\<rparr>]"
      by blast
    from recv_literal_fields_Inr[OF lit] have n: "normalized_acl r"
      and c: "c = or_access (names r) AND NOT NO_ENTRY" by auto
    from n have "mask_iff_names (recv_mask_fixup r c)"
      by (simp add: normalized_acl_def recv_mask_fixup_mask_iff_names)
    with assms(2) l' have "list_all (\<lambda>d. mask_iff_names (racl d)) racl_list'" by simp
    moreover from ndx l' have "0 \<le> ndx \<and> nat ndx < length racl_list'" by simp
    moreover from ndx l' have "racl (racl_list' ! nat ndx) = recv_mask_fixup r c" by simp
    ultimately show ?thesis
      using recv_mask_fixup_cases[OF n c] lit f True by auto
  next
    case False
    from recv_rsync_acl_reuse[OF assms(1)[unfolded f] False] assms(2) f False
    show ?thesis by auto
  qed
qed


text \<open>
  The example of the spec: named entries (uid 5, \<open>rw-\<close>) and (gid 9, \<open>r--\<close>), no mask
  slot and no group slot. The computed mask is \<open>rw-\<close>.
\<close>

theorem recv_rsync_acl_computed_mask_witness:
  "recv_rsync_acl numeric_env [] SMB_ACL_TYPE_ACCESS
     [Varint 0, Byte 16, Varint 2, Varint 5, Varint 26, Varint 9, Varint 16]
   = Inr (0, [\<lparr>racl = \<lparr>names = [\<lparr>ida_id = 5, access = 0x80000006\<rparr>,
                                  \<lparr>ida_id = 9, access = 4\<rparr>],
                         user_obj = 0x80, group_obj = 0x80, mask_obj = 6, other_obj = 0x80\<rparr>,
               sacl = Sacl_null\<rparr>], [])
   \<and> (16::uchar) AND XMIT_MASK_OBJ = 0
   \<and> (6::uchar) = (or_access [\<lparr>ida_id = 5, access = 0x80000006\<rparr>, \<lparr>ida_id = 9, access = 4\<rparr>]
                   OR 0) AND 7"
proof -
  let ?a = "\<lparr>names = [\<lparr>ida_id = 5, access = 0x80000006\<rparr>, \<lparr>ida_id = 9, access = 4\<rparr>],
             user_obj = 0x80, group_obj = 0x80, mask_obj = 6, other_obj = 0x80\<rparr>"
  have ev: "recv_rsync_acl numeric_env [] SMB_ACL_TYPE_ACCESS
              [Varint 0, Byte 16, Varint 2, Varint 5, Varint 26, Varint 9, Varint 16]
            = Inr (0, [\<lparr>racl = ?a, sacl = Sacl_null\<rparr>], [])"
    by code_simp
  have fl: "(16::uchar) AND XMIT_MASK_OBJ = 0" by (simp add: XMIT_MASK_OBJ_def)
  from recv_rsync_acl_computed_mask[OF ev fl, of ?a] ev fl show ?thesis
    by (simp add: NO_ENTRY_def)
qed

text \<open>
  A list whose one element has named entries and a mask; a literal arrives with group
  \<open>rwx\<close>, mask \<open>r-x\<close> and no named entries. The new element has group \<open>r-x\<close> and
  no mask.
\<close>

theorem recv_rsync_acl_mask_iff_names_witness:
  "recv_rsync_acl numeric_env
     [\<lparr>racl = \<lparr>names = [\<lparr>ida_id = 5, access = 0x80000006\<rparr>], user_obj = 0x80,
               group_obj = 0x80, mask_obj = 6, other_obj = 0x80\<rparr>, sacl = Sacl_null\<rparr>]
     SMB_ACL_TYPE_ACCESS [Varint 0, Byte 6, Varint 7, Varint 5]
   = Inr (1, [\<lparr>racl = \<lparr>names = [\<lparr>ida_id = 5, access = 0x80000006\<rparr>], user_obj = 0x80,
                       group_obj = 0x80, mask_obj = 6, other_obj = 0x80\<rparr>, sacl = Sacl_null\<rparr>,
              \<lparr>racl = \<lparr>names = [], user_obj = 0x80, group_obj = 5, mask_obj = 0x80,
                       other_obj = 0x80\<rparr>, sacl = Sacl_null\<rparr>], [])
   \<and> list_all (\<lambda>d. mask_iff_names (racl d))
        [\<lparr>racl = \<lparr>names = [\<lparr>ida_id = 5, access = 0x80000006\<rparr>], user_obj = 0x80,
                  group_obj = 0x80, mask_obj = 6, other_obj = 0x80\<rparr>, sacl = Sacl_null\<rparr>]
   \<and> list_all (\<lambda>d. mask_iff_names (racl d))
        [\<lparr>racl = \<lparr>names = [\<lparr>ida_id = 5, access = 0x80000006\<rparr>], user_obj = 0x80,
                  group_obj = 0x80, mask_obj = 6, other_obj = 0x80\<rparr>, sacl = Sacl_null\<rparr>,
         \<lparr>racl = \<lparr>names = [], user_obj = 0x80, group_obj = 5, mask_obj = 0x80,
                  other_obj = 0x80\<rparr>, sacl = Sacl_null\<rparr>]"
proof -
  let ?old = "[\<lparr>racl = \<lparr>names = [\<lparr>ida_id = 5, access = 0x80000006\<rparr>], user_obj = 0x80,
                        group_obj = 0x80, mask_obj = 6, other_obj = 0x80\<rparr>, sacl = Sacl_null\<rparr>]"
  let ?new = "?old @ [\<lparr>racl = \<lparr>names = [], user_obj = 0x80, group_obj = 5, mask_obj = 0x80,
                               other_obj = 0x80\<rparr>, sacl = Sacl_null\<rparr>]"
  have ev: "recv_rsync_acl numeric_env ?old SMB_ACL_TYPE_ACCESS
              [Varint 0, Byte 6, Varint 7, Varint 5] = Inr (1, ?new, [])"
    by code_simp
  have inv: "list_all (\<lambda>d. mask_iff_names (racl d)) ?old"
    by (simp add: mask_iff_names_def NO_ENTRY_def)
  from recv_rsync_acl_mask_iff_names[OF ev inv] ev inv show ?thesis by simp
qed


section \<open>Protocol corruption\<close>

text \<open>
  The loop over \<open>j + n\<close> named entries is the loop over the first \<open>j\<close> followed by
  the loop over the other \<open>n\<close>, unless the first \<open>j\<close> end the run.
\<close>

lemma recv_ida_loop_add:
  "recv_ida_loop E (j + n) f idas bits
   = (case recv_ida_loop E j f idas bits of
        Inl e \<Rightarrow> Inl e
      | Inr (idas', bits', f') \<Rightarrow> recv_ida_loop E n f' idas' bits')"
  by (induction j arbitrary: f idas bits) (simp_all split: sum.splits)

lemma recv_ida_loop_entry_error:
  assumes "j < n"
    and "recv_ida_loop E j f idas bits = Inr (idas', bits', Varint i # f')"
    and "recv_acl_access True f' = Inl e"
  shows "recv_ida_loop E n f idas bits = Inl e"
proof -
  from assms(1) have "\<exists>m. n = j + Suc m" by presburger
  then obtain m where n: "n = j + Suc m" ..
  from assms(3) have step: "recv_ida_loop E (Suc m) (Varint i # f') idas' bits' = Inl e"
    by (simp add: read_varint_def)
  have "recv_ida_loop E (j + Suc m) f idas bits = Inl e"
    by (simp only: recv_ida_loop_add assms(2) step sum.case prod.case)
  with n show ?thesis by simp
qed

lemma recv_ida_loop_earlier_error:
  assumes "j \<le> n" and "recv_ida_loop E j f idas bits = Inl e"
  shows "recv_ida_loop E n f idas bits = Inl e"
proof -
  from assms(1) obtain m where n: "n = j + m"
    using le_Suc_ex by blast
  from assms(2) show ?thesis
    unfolding n recv_ida_loop_add by simp
qed

lemma recv_acl_access_name_error:
  "\<not> drop_bit 2 v \<le> 7 \<Longrightarrow> recv_acl_access True (Varint v # f)
        = Inl (Exit_cleanup RERR_STREAMIO (Value_out_of_range_msg (drop_bit 2 v)))"
  by (simp add: recv_acl_access_def read_varint_def SMB_ACL_VALID_NAME_BITS_def
        and_minus8_uint32 Let_def)

lemma recv_acl_access_obj_error:
  "\<not> v \<le> 7 \<Longrightarrow> recv_acl_access False (Varint v # f)
        = Inl (Exit_cleanup RERR_STREAMIO (Value_out_of_range_msg v))"
  by (simp add: recv_acl_access_def read_varint_def SMB_ACL_VALID_OBJ_BITS_def
        and_minus8_uint32)

lemma recv_literal_fields_names_error:
  assumes "recv_obj flags XMIT_USER_OBJ NO_ENTRY f0 = Inr (u, f1)"
    and "recv_obj flags XMIT_GROUP_OBJ NO_ENTRY f1 = Inr (g, f2)"
    and "recv_obj flags XMIT_MASK_OBJ NO_ENTRY f2 = Inr (m, f3)"
    and "recv_obj flags XMIT_OTHER_OBJ NO_ENTRY f3 = Inr (ot, f4)"
    and "flags AND XMIT_NAME_LIST \<noteq> 0" and "recv_ida_entries E f4 = Inl e"
  shows "recv_literal_fields E (Byte flags # f0) = Inl e"
  using assms by (simp add: recv_literal_fields_def read_byte_def empty_rsync_acl_def)

lemma recv_rsync_acl_literal_error:
  "recv_literal_fields E f = Inl e \<Longrightarrow> recv_rsync_acl E racl_list type (Varint 0 # f) = Inl e"
  by (simp add: recv_rsync_acl_def read_varint_def recv_literal_def)

lemma recv_ida_entries_loop_error:
  "0 \<le> sint count \<Longrightarrow> recv_ida_loop E (nat (sint count)) f [] 0 = Inl e \<Longrightarrow>
        recv_ida_entries E (Varint count # f) = Inl e"
  by (simp add: recv_ida_entries_def read_varint_def)

lemma recv_rsync_acl_named_entry_error:
  assumes "recv_obj flags XMIT_USER_OBJ NO_ENTRY f0 = Inr (u, f1)"
    and "recv_obj flags XMIT_GROUP_OBJ NO_ENTRY f1 = Inr (g, f2)"
    and "recv_obj flags XMIT_MASK_OBJ NO_ENTRY f2 = Inr (m, f3)"
    and "recv_obj flags XMIT_OTHER_OBJ NO_ENTRY f3 = Inr (ot, Varint count # f5)"
    and "flags AND XMIT_NAME_LIST \<noteq> 0"
    and "int j < sint count"
    and "recv_ida_loop E j f5 [] 0 = Inr (idas, bits, Varint i # Varint v # g0)"
    and "\<not> drop_bit 2 v \<le> 7"
  shows "recv_rsync_acl E racl_list type (Varint 0 # Byte flags # f0)
         = Inl (Exit_cleanup RERR_STREAMIO (Value_out_of_range_msg (drop_bit 2 v)))"
proof -
  let ?e = "Exit_cleanup RERR_STREAMIO (Value_out_of_range_msg (drop_bit 2 v))"
  from assms(6) have "j < nat (sint count)" and "0 \<le> sint count" by simp_all
  then have "recv_ida_entries E (Varint count # f5) = Inl ?e"
    using recv_ida_loop_entry_error[OF _ assms(7) recv_acl_access_name_error[OF assms(8)]]
    by (intro recv_ida_entries_loop_error) simp_all
  then have "recv_literal_fields E (Byte flags # f0) = Inl ?e"
    by (rule recv_literal_fields_names_error[OF assms(1-5)])
  then show ?thesis by (rule recv_rsync_acl_literal_error)
qed

lemma recv_obj_value_error:
  "flags AND xmit \<noteq> 0 \<Longrightarrow> \<not> v \<le> 7 \<Longrightarrow>
   recv_obj flags xmit old (Varint v # g0)
   = Inl (Exit_cleanup RERR_STREAMIO (Value_out_of_range_msg v))"
  using recv_acl_access_obj_error[of v g0] by (simp add: recv_obj_def)

lemma recv_rsync_acl_slot_error:
  assumes "xmit = XMIT_USER_OBJ \<and> f0 = Varint v # g0
           \<or> xmit = XMIT_GROUP_OBJ \<and> recv_obj flags XMIT_USER_OBJ NO_ENTRY f0 = Inr (u, Varint v # g0)
           \<or> xmit = XMIT_MASK_OBJ \<and> recv_obj flags XMIT_USER_OBJ NO_ENTRY f0 = Inr (u, f1)
               \<and> recv_obj flags XMIT_GROUP_OBJ NO_ENTRY f1 = Inr (g, Varint v # g0)
           \<or> xmit = XMIT_OTHER_OBJ \<and> recv_obj flags XMIT_USER_OBJ NO_ENTRY f0 = Inr (u, f1)
               \<and> recv_obj flags XMIT_GROUP_OBJ NO_ENTRY f1 = Inr (g, f2)
               \<and> recv_obj flags XMIT_MASK_OBJ NO_ENTRY f2 = Inr (m, Varint v # g0)"
    and "flags AND xmit \<noteq> 0" and "\<not> v \<le> 7"
  shows "recv_rsync_acl E racl_list type (Varint 0 # Byte flags # f0)
         = Inl (Exit_cleanup RERR_STREAMIO (Value_out_of_range_msg v))"
proof -
  note err = recv_obj_value_error[OF assms(2,3)]
  from assms(1) have "recv_literal_fields E (Byte flags # f0)
        = Inl (Exit_cleanup RERR_STREAMIO (Value_out_of_range_msg v))"
  proof (elim disjE conjE)
    assume "xmit = XMIT_USER_OBJ" "f0 = Varint v # g0"
    with err[of NO_ENTRY g0] show ?thesis
      by (simp add: recv_literal_fields_def read_byte_def empty_rsync_acl_def)
  next
    assume "xmit = XMIT_GROUP_OBJ" "recv_obj flags XMIT_USER_OBJ NO_ENTRY f0 = Inr (u, Varint v # g0)"
    with err[of NO_ENTRY g0] show ?thesis
      by (simp add: recv_literal_fields_def read_byte_def empty_rsync_acl_def)
  next
    assume "xmit = XMIT_MASK_OBJ" "recv_obj flags XMIT_USER_OBJ NO_ENTRY f0 = Inr (u, f1)"
      "recv_obj flags XMIT_GROUP_OBJ NO_ENTRY f1 = Inr (g, Varint v # g0)"
    with err[of NO_ENTRY g0] show ?thesis
      by (simp add: recv_literal_fields_def read_byte_def empty_rsync_acl_def)
  next
    assume "xmit = XMIT_OTHER_OBJ" "recv_obj flags XMIT_USER_OBJ NO_ENTRY f0 = Inr (u, f1)"
      "recv_obj flags XMIT_GROUP_OBJ NO_ENTRY f1 = Inr (g, f2)"
      "recv_obj flags XMIT_MASK_OBJ NO_ENTRY f2 = Inr (m, Varint v # g0)"
    with err[of NO_ENTRY g0] show ?thesis
      by (simp add: recv_literal_fields_def read_byte_def empty_rsync_acl_def)
  qed
  then show ?thesis by (rule recv_rsync_acl_literal_error)
qed

text \<open>
  C5. When an ACL record is decoded, a leading index that is negative or that refers
  to an entry not strictly below the size of the receiver's list, a permission value
  with bits outside \<open>SMB_ACL_VALID_OBJ_BITS\<close> and a named-entry access value with
  bits outside \<open>SMB_ACL_VALID_NAME_BITS\<close> each end the run through
  \<open>exit_cleanup(RERR_STREAMIO)\<close> after the index or the value has been printed.
  Nothing recovers: an error of \<open>recv_acl_access\<close> is the result of the slot read;
  in the loop over \<open>n\<close> named entries, an error of \<open>recv_acl_access\<close> at the entry
  that follows any \<open>j < n\<close> decoded ones, and any error within the first \<open>j \<le> n\<close>
  entries, is the result of the loop; an error of the loop is the result of
  \<open>recv_ida_entries\<close>; an error at any of the five fields of a literal is the result
  of the literal; and an error of the literal is the result of \<open>recv_rsync_acl\<close>.
  Taken together, from the first byte of the literal: a permission value above 7 in
  any of the four slots that the flags announce, and an access value above 7 in the
  named entry at any position below the count, is the
  \<open>exit_cleanup(RERR_STREAMIO)\<close> that \<open>recv_rsync_acl\<close> ends in, with that value
  printed.
\<close>

theorem recv_stream_errors_fatal:
  "(sint ndx < 0 \<or> int (length racl_list) \<le> sint ndx - 1 \<longrightarrow>
      recv_rsync_acl E racl_list type (Varint ndx # f)
      = Inl (Exit_cleanup RERR_STREAMIO (Acl_index_msg type (sint ndx) (length racl_list))))
   \<and> (\<not> v \<le> 7 \<longrightarrow>
        recv_acl_access False (Varint v # f)
        = Inl (Exit_cleanup RERR_STREAMIO (Value_out_of_range_msg v)))
   \<and> (\<not> drop_bit 2 v \<le> 7 \<longrightarrow>
        recv_acl_access True (Varint v # f)
        = Inl (Exit_cleanup RERR_STREAMIO (Value_out_of_range_msg (drop_bit 2 v))))
   \<and> (flags AND xmit \<noteq> 0 \<and> recv_acl_access False f = Inl e \<longrightarrow>
        recv_obj flags xmit old f = Inl e)
   \<and> (j < n \<and> recv_ida_loop E j f idas bits = Inr (idas', bits', Varint i # f')
        \<and> recv_acl_access True f' = Inl e \<longrightarrow>
        recv_ida_loop E n f idas bits = Inl e)
   \<and> (j \<le> n \<and> recv_ida_loop E j f idas bits = Inl e \<longrightarrow>
        recv_ida_loop E n f idas bits = Inl e)
   \<and> (0 \<le> sint count \<and> recv_ida_loop E (nat (sint count)) f [] 0 = Inl e \<longrightarrow>
        recv_ida_entries E (Varint count # f) = Inl e)
   \<and> (recv_obj flags XMIT_USER_OBJ NO_ENTRY f0 = Inl e \<longrightarrow>
        recv_literal_fields E (Byte flags # f0) = Inl e)
   \<and> (recv_obj flags XMIT_USER_OBJ NO_ENTRY f0 = Inr (u, f1)
        \<and> recv_obj flags XMIT_GROUP_OBJ NO_ENTRY f1 = Inl e \<longrightarrow>
        recv_literal_fields E (Byte flags # f0) = Inl e)
   \<and> (recv_obj flags XMIT_USER_OBJ NO_ENTRY f0 = Inr (u, f1)
        \<and> recv_obj flags XMIT_GROUP_OBJ NO_ENTRY f1 = Inr (g, f2)
        \<and> recv_obj flags XMIT_MASK_OBJ NO_ENTRY f2 = Inl e \<longrightarrow>
        recv_literal_fields E (Byte flags # f0) = Inl e)
   \<and> (recv_obj flags XMIT_USER_OBJ NO_ENTRY f0 = Inr (u, f1)
        \<and> recv_obj flags XMIT_GROUP_OBJ NO_ENTRY f1 = Inr (g, f2)
        \<and> recv_obj flags XMIT_MASK_OBJ NO_ENTRY f2 = Inr (m, f3)
        \<and> recv_obj flags XMIT_OTHER_OBJ NO_ENTRY f3 = Inl e \<longrightarrow>
        recv_literal_fields E (Byte flags # f0) = Inl e)
   \<and> (recv_obj flags XMIT_USER_OBJ NO_ENTRY f0 = Inr (u, f1)
        \<and> recv_obj flags XMIT_GROUP_OBJ NO_ENTRY f1 = Inr (g, f2)
        \<and> recv_obj flags XMIT_MASK_OBJ NO_ENTRY f2 = Inr (m, f3)
        \<and> recv_obj flags XMIT_OTHER_OBJ NO_ENTRY f3 = Inr (ot, f4)
        \<and> flags AND XMIT_NAME_LIST \<noteq> 0 \<and> recv_ida_entries E f4 = Inl e \<longrightarrow>
        recv_literal_fields E (Byte flags # f0) = Inl e)
   \<and> (recv_literal_fields E f = Inl e \<longrightarrow>
        recv_rsync_acl E racl_list type (Varint 0 # f) = Inl e)
   \<and> ((xmit = XMIT_USER_OBJ \<and> f0 = Varint v # g0
         \<or> xmit = XMIT_GROUP_OBJ
             \<and> recv_obj flags XMIT_USER_OBJ NO_ENTRY f0 = Inr (u, Varint v # g0)
         \<or> xmit = XMIT_MASK_OBJ
             \<and> recv_obj flags XMIT_USER_OBJ NO_ENTRY f0 = Inr (u, f1)
             \<and> recv_obj flags XMIT_GROUP_OBJ NO_ENTRY f1 = Inr (g, Varint v # g0)
         \<or> xmit = XMIT_OTHER_OBJ
             \<and> recv_obj flags XMIT_USER_OBJ NO_ENTRY f0 = Inr (u, f1)
             \<and> recv_obj flags XMIT_GROUP_OBJ NO_ENTRY f1 = Inr (g, f2)
             \<and> recv_obj flags XMIT_MASK_OBJ NO_ENTRY f2 = Inr (m, Varint v # g0))
        \<and> flags AND xmit \<noteq> 0 \<and> \<not> v \<le> 7 \<longrightarrow>
        recv_rsync_acl E racl_list type (Varint 0 # Byte flags # f0)
        = Inl (Exit_cleanup RERR_STREAMIO (Value_out_of_range_msg v)))
   \<and> (recv_obj flags XMIT_USER_OBJ NO_ENTRY f0 = Inr (u, f1)
        \<and> recv_obj flags XMIT_GROUP_OBJ NO_ENTRY f1 = Inr (g, f2)
        \<and> recv_obj flags XMIT_MASK_OBJ NO_ENTRY f2 = Inr (m, f3)
        \<and> recv_obj flags XMIT_OTHER_OBJ NO_ENTRY f3 = Inr (ot, Varint count # f5)
        \<and> flags AND XMIT_NAME_LIST \<noteq> 0
        \<and> int j < sint count
        \<and> recv_ida_loop E j f5 [] 0 = Inr (idas, bits, Varint i # Varint v # g0)
        \<and> \<not> drop_bit 2 v \<le> 7 \<longrightarrow>
        recv_rsync_acl E racl_list type (Varint 0 # Byte flags # f0)
        = Inl (Exit_cleanup RERR_STREAMIO (Value_out_of_range_msg (drop_bit 2 v))))"
proof (intro conjI impI)
  assume "sint ndx < 0 \<or> int (length racl_list) \<le> sint ndx - 1"
  then show "recv_rsync_acl E racl_list type (Varint ndx # f)
      = Inl (Exit_cleanup RERR_STREAMIO (Acl_index_msg type (sint ndx) (length racl_list)))"
    by (auto simp: recv_rsync_acl_def read_varint_def)
next
  assume "\<not> v \<le> 7"
  then show "recv_acl_access False (Varint v # f)
        = Inl (Exit_cleanup RERR_STREAMIO (Value_out_of_range_msg v))"
    by (rule recv_acl_access_obj_error)
next
  assume "\<not> drop_bit 2 v \<le> 7"
  then show "recv_acl_access True (Varint v # f)
        = Inl (Exit_cleanup RERR_STREAMIO (Value_out_of_range_msg (drop_bit 2 v)))"
    by (rule recv_acl_access_name_error)
next
  assume "flags AND xmit \<noteq> 0 \<and> recv_acl_access False f = Inl e"
  then show "recv_obj flags xmit old f = Inl e"
    by (simp add: recv_obj_def)
next
  assume "j < n \<and> recv_ida_loop E j f idas bits = Inr (idas', bits', Varint i # f')
        \<and> recv_acl_access True f' = Inl e"
  then show "recv_ida_loop E n f idas bits = Inl e"
    using recv_ida_loop_entry_error by blast
next
  assume "j \<le> n \<and> recv_ida_loop E j f idas bits = Inl e"
  then show "recv_ida_loop E n f idas bits = Inl e"
    using recv_ida_loop_earlier_error by blast
next
  assume "0 \<le> sint count \<and> recv_ida_loop E (nat (sint count)) f [] 0 = Inl e"
  then show "recv_ida_entries E (Varint count # f) = Inl e"
    by (simp add: recv_ida_entries_loop_error)
next
  assume "recv_literal_fields E f = Inl e"
  then show "recv_rsync_acl E racl_list type (Varint 0 # f) = Inl e"
    by (rule recv_rsync_acl_literal_error)
next
  assume "(xmit = XMIT_USER_OBJ \<and> f0 = Varint v # g0
         \<or> xmit = XMIT_GROUP_OBJ
             \<and> recv_obj flags XMIT_USER_OBJ NO_ENTRY f0 = Inr (u, Varint v # g0)
         \<or> xmit = XMIT_MASK_OBJ
             \<and> recv_obj flags XMIT_USER_OBJ NO_ENTRY f0 = Inr (u, f1)
             \<and> recv_obj flags XMIT_GROUP_OBJ NO_ENTRY f1 = Inr (g, Varint v # g0)
         \<or> xmit = XMIT_OTHER_OBJ
             \<and> recv_obj flags XMIT_USER_OBJ NO_ENTRY f0 = Inr (u, f1)
             \<and> recv_obj flags XMIT_GROUP_OBJ NO_ENTRY f1 = Inr (g, f2)
             \<and> recv_obj flags XMIT_MASK_OBJ NO_ENTRY f2 = Inr (m, Varint v # g0))
        \<and> flags AND xmit \<noteq> 0 \<and> \<not> v \<le> 7"
  then show "recv_rsync_acl E racl_list type (Varint 0 # Byte flags # f0)
        = Inl (Exit_cleanup RERR_STREAMIO (Value_out_of_range_msg v))"
    using recv_rsync_acl_slot_error[of xmit f0 v g0 flags u f1 g f2 m E racl_list type]
    by blast
next
  assume "recv_obj flags XMIT_USER_OBJ NO_ENTRY f0 = Inr (u, f1)
        \<and> recv_obj flags XMIT_GROUP_OBJ NO_ENTRY f1 = Inr (g, f2)
        \<and> recv_obj flags XMIT_MASK_OBJ NO_ENTRY f2 = Inr (m, f3)
        \<and> recv_obj flags XMIT_OTHER_OBJ NO_ENTRY f3 = Inr (ot, Varint count # f5)
        \<and> flags AND XMIT_NAME_LIST \<noteq> 0
        \<and> int j < sint count
        \<and> recv_ida_loop E j f5 [] 0 = Inr (idas, bits, Varint i # Varint v # g0)
        \<and> \<not> drop_bit 2 v \<le> 7"
  then show "recv_rsync_acl E racl_list type (Varint 0 # Byte flags # f0)
        = Inl (Exit_cleanup RERR_STREAMIO (Value_out_of_range_msg (drop_bit 2 v)))"
    using recv_rsync_acl_named_entry_error by blast
qed (simp_all add: recv_literal_fields_def read_byte_def empty_rsync_acl_def)


text \<open>
  A negative index; an index past an empty list; a literal whose owning-user slot is
  8; a literal whose one named entry has access value 8 (\<open>0x22 >> 2\<close>); a literal
  with three named entries, the third with access value 8; a loop over three named
  entries, the first with access value 8; a literal whose mask slot is 9, after an
  owning-user slot of 7 and an owning-group slot of 5; a literal with an owning-user
  slot and two named entries, the second with access value 8.
\<close>

theorem recv_stream_errors_fatal_witness:
  "recv_rsync_acl numeric_env [] SMB_ACL_TYPE_ACCESS [Varint 0xFFFFFFFF]
     = Inl (Exit_cleanup RERR_STREAMIO (Acl_index_msg SMB_ACL_TYPE_ACCESS (- 1) 0))
   \<and> recv_rsync_acl numeric_env [] SMB_ACL_TYPE_DEFAULT [Varint 1]
     = Inl (Exit_cleanup RERR_STREAMIO (Acl_index_msg SMB_ACL_TYPE_DEFAULT 1 0))
   \<and> recv_rsync_acl numeric_env [] SMB_ACL_TYPE_ACCESS [Varint 0, Byte 1, Varint 8]
     = Inl (Exit_cleanup RERR_STREAMIO (Value_out_of_range_msg 8))
   \<and> recv_rsync_acl numeric_env [] SMB_ACL_TYPE_ACCESS
       [Varint 0, Byte 16, Varint 1, Varint 5, Varint 0x22]
     = Inl (Exit_cleanup RERR_STREAMIO (Value_out_of_range_msg 8))
   \<and> recv_rsync_acl numeric_env [] SMB_ACL_TYPE_ACCESS
       [Varint 0, Byte 16, Varint 3, Varint 1000, Varint 26, Varint 1001, Varint 16,
        Varint 1002, Varint 0x22]
     = Inl (Exit_cleanup RERR_STREAMIO (Value_out_of_range_msg 8))
   \<and> recv_ida_loop numeric_env 3 [Varint 1000, Varint 0x22, Varint 1001, Varint 16] [] 0
     = Inl (Exit_cleanup RERR_STREAMIO (Value_out_of_range_msg 8))
   \<and> recv_rsync_acl numeric_env [] SMB_ACL_TYPE_ACCESS
       [Varint 0, Byte 7, Varint 7, Varint 5, Varint 9]
     = Inl (Exit_cleanup RERR_STREAMIO (Value_out_of_range_msg 9))
   \<and> recv_rsync_acl numeric_env [] SMB_ACL_TYPE_DEFAULT
       [Varint 0, Byte 17, Varint 7, Varint 2, Varint 1000, Varint 26, Varint 1001, Varint 0x22]
     = Inl (Exit_cleanup RERR_STREAMIO (Value_out_of_range_msg 8))"
proof -
  note index = recv_stream_errors_fatal[THEN conjunct1, rule_format]
  note rest1 = recv_stream_errors_fatal[THEN conjunct2]
  note obj = rest1[THEN conjunct1, rule_format]
  note rest2 = rest1[THEN conjunct2]
  note name = rest2[THEN conjunct1, rule_format]
  note rest3 = rest2[THEN conjunct2]
  note slot = rest3[THEN conjunct1, rule_format]
  note rest4 = rest3[THEN conjunct2]
  note entry = rest4[THEN conjunct1, rule_format, OF conjI, OF _ conjI]
  note rest5 = rest4[THEN conjunct2]
  note earlier = rest5[THEN conjunct1, rule_format, OF conjI]
  note rest6 = rest5[THEN conjunct2]
  note entries = rest6[THEN conjunct1, rule_format]
  note rest7 = rest6[THEN conjunct2]
  note user = rest7[THEN conjunct1, rule_format]
  note rest8 = rest7[THEN conjunct2]
  note rest9 = rest8[THEN conjunct2]
  note rest10 = rest9[THEN conjunct2]
  note rest11 = rest10[THEN conjunct2]
  note names = rest11[THEN conjunct1, rule_format, OF conjI, OF _ conjI, OF _ _ conjI,
      OF _ _ _ conjI, OF _ _ _ _ conjI]
  note rest12 = rest11[THEN conjunct2]
  note literal = rest12[THEN conjunct1, rule_format]
  note rest13 = rest12[THEN conjunct2]
  note any_slot = rest13[THEN conjunct1, rule_format, OF conjI, OF _ conjI]
  note any_entry = rest13[THEN conjunct2, rule_format, OF conjI, OF _ conjI, OF _ _ conjI,
      OF _ _ _ conjI, OF _ _ _ _ conjI, OF _ _ _ _ _ conjI, OF _ _ _ _ _ _ conjI]
  let ?e8 = "Exit_cleanup RERR_STREAMIO (Value_out_of_range_msg 8)"
  have 1: "recv_rsync_acl numeric_env [] SMB_ACL_TYPE_ACCESS [Varint 0xFFFFFFFF]
     = Inl (Exit_cleanup RERR_STREAMIO (Acl_index_msg SMB_ACL_TYPE_ACCESS (- 1) 0))"
    using index[of "0xFFFFFFFF" "[]" numeric_env SMB_ACL_TYPE_ACCESS "[]"] by simp
  have 2: "recv_rsync_acl numeric_env [] SMB_ACL_TYPE_DEFAULT [Varint 1]
     = Inl (Exit_cleanup RERR_STREAMIO (Acl_index_msg SMB_ACL_TYPE_DEFAULT 1 0))"
    using index[of 1 "[]" numeric_env SMB_ACL_TYPE_DEFAULT "[]"] by simp
  have "recv_acl_access False [Varint 8] = Inl ?e8"
    using obj[of 8 "[]"] by simp
  then have "recv_obj 1 XMIT_USER_OBJ NO_ENTRY [Varint 8] = Inl ?e8"
    by (intro slot) (simp add: XMIT_USER_OBJ_def)
  then have "recv_literal_fields numeric_env [Byte 1, Varint 8] = Inl ?e8"
    by (rule user)
  then have 3: "recv_rsync_acl numeric_env [] SMB_ACL_TYPE_ACCESS [Varint 0, Byte 1, Varint 8]
     = Inl ?e8"
    by (rule literal)
  have bad: "recv_acl_access True [Varint 0x22] = Inl ?e8"
    using name[of "0x22" "[]"] by simp
  have none: "recv_obj 16 XMIT_USER_OBJ NO_ENTRY f = Inr (NO_ENTRY, f)"
    "recv_obj 16 XMIT_GROUP_OBJ NO_ENTRY f = Inr (NO_ENTRY, f)"
    "recv_obj 16 XMIT_MASK_OBJ NO_ENTRY f = Inr (NO_ENTRY, f)"
    "recv_obj 16 XMIT_OTHER_OBJ NO_ENTRY f = Inr (NO_ENTRY, f)"
    "(16::uchar) AND XMIT_NAME_LIST \<noteq> 0" for f
    by (simp_all add: recv_obj_def XMIT_USER_OBJ_def XMIT_GROUP_OBJ_def XMIT_MASK_OBJ_def
         XMIT_OTHER_OBJ_def XMIT_NAME_LIST_def)
  have "recv_ida_loop numeric_env 0 [Varint 5, Varint 0x22] [] 0
        = Inr ([], 0, [Varint 5, Varint 0x22])"
    by simp
  from entry[OF _ this bad, of "Suc 0"]
  have "recv_ida_loop numeric_env (Suc 0) [Varint 5, Varint 0x22] [] 0 = Inl ?e8"
    by simp
  then have "recv_ida_entries numeric_env [Varint 1, Varint 5, Varint 0x22] = Inl ?e8"
    by (intro entries) simp_all
  then have "recv_literal_fields numeric_env [Byte 16, Varint 1, Varint 5, Varint 0x22]
        = Inl ?e8"
    by (intro names[OF none])
  then have 4: "recv_rsync_acl numeric_env [] SMB_ACL_TYPE_ACCESS
       [Varint 0, Byte 16, Varint 1, Varint 5, Varint 0x22] = Inl ?e8"
    by (rule literal)
  have two: "recv_ida_loop numeric_env (Suc (Suc 0))
          [Varint 1000, Varint 26, Varint 1001, Varint 16, Varint 1002, Varint 0x22] [] 0
        = Inr ([\<lparr>ida_id = 1000, access = 0x80000006\<rparr>, \<lparr>ida_id = 1001, access = 4\<rparr>], 6,
               [Varint 1002, Varint 0x22])"
    by code_simp
  from entry[OF _ two bad, of 3]
  have "recv_ida_loop numeric_env 3
          [Varint 1000, Varint 26, Varint 1001, Varint 16, Varint 1002, Varint 0x22] [] 0
        = Inl ?e8"
    by simp
  then have "recv_ida_entries numeric_env
          [Varint 3, Varint 1000, Varint 26, Varint 1001, Varint 16, Varint 1002, Varint 0x22]
        = Inl ?e8"
    by (intro entries) simp_all
  then have "recv_literal_fields numeric_env
          [Byte 16, Varint 3, Varint 1000, Varint 26, Varint 1001, Varint 16,
           Varint 1002, Varint 0x22]
        = Inl ?e8"
    by (intro names[OF none])
  then have 5: "recv_rsync_acl numeric_env [] SMB_ACL_TYPE_ACCESS
       [Varint 0, Byte 16, Varint 3, Varint 1000, Varint 26, Varint 1001, Varint 16,
        Varint 1002, Varint 0x22] = Inl ?e8"
    by (rule literal)
  have "recv_ida_loop numeric_env (Suc 0) [Varint 1000, Varint 0x22, Varint 1001, Varint 16] [] 0
        = Inl ?e8"
    by code_simp
  from earlier[OF _ this, of 3]
  have 6: "recv_ida_loop numeric_env 3 [Varint 1000, Varint 0x22, Varint 1001, Varint 16] [] 0
        = Inl ?e8"
    by simp
  have user7: "recv_obj 7 XMIT_USER_OBJ NO_ENTRY [Varint 7, Varint 5, Varint 9]
        = Inr (7, [Varint 5, Varint 9])"
    and group5: "recv_obj 7 XMIT_GROUP_OBJ NO_ENTRY [Varint 5, Varint 9] = Inr (5, [Varint 9])"
    by (simp_all add: recv_obj_def recv_acl_access_def read_varint_def XMIT_USER_OBJ_def
         XMIT_GROUP_OBJ_def SMB_ACL_VALID_OBJ_BITS_def)
  have 7: "recv_rsync_acl numeric_env [] SMB_ACL_TYPE_ACCESS
       [Varint 0, Byte 7, Varint 7, Varint 5, Varint 9]
     = Inl (Exit_cleanup RERR_STREAMIO (Value_out_of_range_msg 9))"
    using any_slot[OF disjI2[OF disjI2[OF disjI1[OF conjI[OF refl conjI[OF user7 group5]]]]]]
    by (simp add: XMIT_MASK_OBJ_def)
  have user17: "recv_obj 17 XMIT_USER_OBJ NO_ENTRY (Varint 7 # f) = Inr (7, f)"
    and none17: "recv_obj 17 XMIT_GROUP_OBJ NO_ENTRY f = Inr (NO_ENTRY, f)"
    "recv_obj 17 XMIT_MASK_OBJ NO_ENTRY f = Inr (NO_ENTRY, f)"
    "recv_obj 17 XMIT_OTHER_OBJ NO_ENTRY f = Inr (NO_ENTRY, f)"
    "(17::uchar) AND XMIT_NAME_LIST \<noteq> 0" for f
    by (simp_all add: recv_obj_def recv_acl_access_def read_varint_def XMIT_USER_OBJ_def
         XMIT_GROUP_OBJ_def XMIT_MASK_OBJ_def XMIT_OTHER_OBJ_def XMIT_NAME_LIST_def
         SMB_ACL_VALID_OBJ_BITS_def)
  have one: "recv_ida_loop numeric_env (Suc 0) [Varint 1000, Varint 26, Varint 1001, Varint 0x22]
          [] 0
        = Inr ([\<lparr>ida_id = 1000, access = 0x80000006\<rparr>], 6, [Varint 1001, Varint 0x22])"
    by code_simp
  have 8: "recv_rsync_acl numeric_env [] SMB_ACL_TYPE_DEFAULT
       [Varint 0, Byte 17, Varint 7, Varint 2, Varint 1000, Varint 26, Varint 1001, Varint 0x22]
     = Inl ?e8"
    using any_entry[OF user17 none17 _ one] by simp
  from 1 2 3 4 5 6 7 8 show ?thesis by simp
qed



section \<open>Round trip of a literal ACL\<close>

lemma and_NAME_IS_USER: "a AND NAME_IS_USER = (if bit a 31 then NAME_IS_USER else 0)"
  using and_exp_cases[of a 31] by (simp add: NAME_IS_USER_def)

lemma split_NAME_IS_USER: "(a::uint32) = (a AND NOT NAME_IS_USER) OR (a AND NAME_IS_USER)"
  by (rule bit_word_eqI) (auto simp: bit_simps)

lemma named_entry_access:
  assumes "named_entry ida"
  shows "\<exists>p. p \<le> 7 \<and> (access ida = p \<or> access ida = p OR NAME_IS_USER)"
proof -
  let ?p = "access ida AND NOT NAME_IS_USER"
  from assms have "?p \<le> 7" by (simp add: named_entry_def)
  moreover have "access ida = ?p \<or> access ida = ?p OR NAME_IS_USER"
    using split_NAME_IS_USER[of "access ida"] and_NAME_IS_USER[of "access ida"]
    by (cases "bit (access ida) 31") simp_all
  ultimately show ?thesis by blast
qed


lemma recv_acl_access_sent:
  assumes "named_entry ida"
  shows "recv_acl_access True
           (Varint ((if access ida AND NAME_IS_USER \<noteq> 0
                     then push_bit 2 (access ida) OR XFLAG_NAME_IS_USER
                     else push_bit 2 (access ida))
                    OR (if nf then XFLAG_NAME_FOLLOWS else 0)) # f)
         = Inr (access ida, if nf then 1 else 0, f)"
proof -
  from named_entry_access[OF assms] obtain p where
    "p \<le> 7" and "access ida = p \<or> access ida = p OR NAME_IS_USER" by blast
  then show ?thesis
    by (auto dest!: word_le_7_cases
        simp: recv_acl_access_def read_varint_def NAME_IS_USER_def XFLAG_NAME_IS_USER_def
          XFLAG_NAME_FOLLOWS_def SMB_ACL_VALID_NAME_BITS_def)
qed

lemma recv_name_sent:
  assumes "length nm < 256"
  shows "recv_user_name R (Byte (of_nat (length nm)) # Buf nm # f) i = Inr (user_name_id R nm i, f)"
    and "recv_group_name R (Byte (of_nat (length nm)) # Buf nm # f) i = Inr (group_name_id R nm i, f)"
proof -
  from assms have "unat (of_nat (length nm) :: uchar) = length nm"
    by (simp add: unat_of_nat take_bit_nat_eq_self)
  then show "recv_user_name R (Byte (of_nat (length nm)) # Buf nm # f) i = Inr (user_name_id R nm i, f)"
    and "recv_group_name R (Byte (of_nat (length nm)) # Buf nm # f) i = Inr (group_name_id R nm i, f)"
    by (simp_all add: recv_user_name_def recv_group_name_def read_byte_def read_sbuf_def)
qed

lemma recv_ida_loop_sent:
  assumes short: "\<And>i n. add_uid S i = Some n \<Longrightarrow> length n < 256"
      "\<And>i n. add_gid S i = Some n \<Longrightarrow> length n < 256"
    and ids: "\<And>n i. user_name_id R n i = i" "\<And>n i. group_name_id R n i = i"
      "\<And>i. match_uid R i = i" "\<And>i. match_gid R i = i"
  shows "list_all named_entry xs \<Longrightarrow>
         recv_ida_loop R (length xs) (send_ida_loop S xs @ rest) idas bits
         = Inr (idas @ xs, bits OR or_access xs, rest)"
proof (induction xs arbitrary: idas bits)
  case Nil
  then show ?case by simp
next
  case (Cons ida xs)
  then have n: "named_entry ida" and ns: "list_all named_entry xs" by simp_all
  from named_entry_cases[OF named_entry_access[OF n], of "ida_id ida"]
  have u: "ucast (access ida AND NOT NAME_IS_USER) = (ucast (access ida) :: uchar)" by simp
  show ?case
  proof (cases "if inc_recurse S then (if access ida AND NAME_IS_USER \<noteq> 0 then add_uid S (ida_id ida) else add_gid S (ida_id ida)) else None")
    case None
    then show ?thesis
      using recv_acl_access_sent[OF n, of False] Cons.IH[OF ns] u
      by (simp add: read_varint_def Let_def ids or.assoc)
  next
    case (Some nm)
    then have "length nm < 256" using short by (auto split: if_splits)
    from recv_name_sent[OF this] Some show ?thesis
      using recv_acl_access_sent[OF n, of True] Cons.IH[OF ns] u
      by (simp add: read_varint_def Let_def ids or.assoc)
  qed
qed


lemma find_loop_no_match:
  assumes "list_all (\<lambda>x. \<not> rsync_acl_equal x r) xs"
  shows "0 \<le> m \<Longrightarrow> m < int (length xs) \<Longrightarrow>
         find_loop r (racl_items xs) (length xs) k m = Inr (- 1, - 1)"
proof (induction k arbitrary: m)
  case 0
  then show ?case by simp
next
  case (Suc k)
  from Suc.prems have "nat m < length xs" by simp
  with assms have "\<not> rsync_acl_equal (xs ! nat m) r" by (simp add: list_all_length)
  moreover from Suc.prems
  have "find_loop r (racl_items xs) (length xs) k (if m = 0 then int (length xs) - 1 else m - 1)
        = Inr (- 1, - 1)"
    by (intro Suc.IH) auto
  moreover from Suc.prems have "racl_items xs m = Some (xs ! nat m)"
    by (simp add: racl_items_def)
  ultimately show ?case by simp
qed

lemma find_matching_rsync_acl_no_match:
  assumes "list_all (\<lambda>x. \<not> rsync_acl_equal x r) xs" and "cursor_in_range type st (length xs)"
  shows "find_matching_rsync_acl r type st (racl_items xs) (length xs)
         = Inr (- 1, set_cursor type (- 1) st)"
proof (cases "xs = []")
  case True
  then show ?thesis by (simp add: find_matching_rsync_acl_def set_cursor_def Let_def)
next
  case False
  let ?m0 = "if type = SMB_ACL_TYPE_ACCESS then access_match st else default_match st"
  let ?m = "if ?m0 = - 1 then int (length xs) - 1 else ?m0"
  from False assms(2) have "0 \<le> ?m" "?m < int (length xs)"
    by (auto simp: cursor_in_range_def Let_def)
  from find_loop_no_match[OF assms(1) this, of "length xs"] show ?thesis
    by (simp add: find_matching_rsync_acl_def set_cursor_def Let_def)
qed

lemma send_flags_bits:
  "(send_flags r AND XMIT_USER_OBJ \<noteq> 0) = (user_obj r \<noteq> NO_ENTRY)"
  "(send_flags r AND XMIT_GROUP_OBJ \<noteq> 0) = (group_obj r \<noteq> NO_ENTRY)"
  "(send_flags r AND XMIT_MASK_OBJ \<noteq> 0) = (mask_obj r \<noteq> NO_ENTRY)"
  "(send_flags r AND XMIT_OTHER_OBJ \<noteq> 0) = (other_obj r \<noteq> NO_ENTRY)"
  "(send_flags r AND XMIT_NAME_LIST \<noteq> 0) = (names r \<noteq> [])"
  by (simp_all add: send_flags_def Let_def XMIT_USER_OBJ_def XMIT_GROUP_OBJ_def
      XMIT_MASK_OBJ_def XMIT_OTHER_OBJ_def XMIT_NAME_LIST_def)

lemma recv_obj_sent:
  assumes "perm_slot x" and "(flags AND xmit \<noteq> 0) = (x \<noteq> NO_ENTRY)"
  shows "recv_obj flags xmit NO_ENTRY ((if x \<noteq> NO_ENTRY then [Varint (ucast x)] else []) @ f)
         = Inr (x, f)"
proof (cases "x = NO_ENTRY")
  case True
  with assms(2) show ?thesis by (simp add: recv_obj_def)
next
  case False
  with assms(1) have "x \<le> 7" by (simp add: perm_slot_def)
  from word_le_7_cases[OF this] assms(2) False show ?thesis
    by (elim disjE)
       (simp_all add: recv_obj_def recv_acl_access_def read_varint_def
         SMB_ACL_VALID_OBJ_BITS_def)
qed

lemma sint_of_nat_small: "n < 2 ^ 31 \<Longrightarrow> sint (of_nat n :: uint32) = int n"
  by (simp add: signed_of_nat signed_take_bit_int_eq_self take_bit_int_eq_self)

lemma recv_ida_entries_sent:
  assumes short: "\<And>i n. add_uid S i = Some n \<Longrightarrow> length n < 256"
      "\<And>i n. add_gid S i = Some n \<Longrightarrow> length n < 256"
    and ids: "\<And>n i. user_name_id R n i = i" "\<And>n i. group_name_id R n i = i"
      "\<And>i. match_uid R i = i" "\<And>i. match_gid R i = i"
    and "list_all named_entry xs" and "length xs < 2 ^ 31"
  shows "recv_ida_entries R (send_ida_entries S xs @ rest)
         = Inr (xs, or_access xs AND NOT NO_ENTRY, rest)"
  using recv_ida_loop_sent[where S=S and R=R and xs=xs and rest=rest and idas="[]" and bits=0,
      OF short ids] assms(7,8)
  by (simp add: recv_ida_entries_def send_ida_entries_def read_varint_def sint_of_nat_small)

lemma recv_literal_fieldsI:
  assumes "recv_obj flags XMIT_USER_OBJ NO_ENTRY f0 = Inr (u, f1)"
    and "recv_obj flags XMIT_GROUP_OBJ NO_ENTRY f1 = Inr (g, f2)"
    and "recv_obj flags XMIT_MASK_OBJ NO_ENTRY f2 = Inr (m, f3)"
    and "recv_obj flags XMIT_OTHER_OBJ NO_ENTRY f3 = Inr (ot, f4)"
    and "(if flags AND XMIT_NAME_LIST \<noteq> 0 then recv_ida_entries E f4
          else Inr (names empty_rsync_acl, 0, f4)) = Inr (idas, bits, f5)"
  shows "recv_literal_fields E (Byte flags # f0)
         = Inr (\<lparr>names = idas, user_obj = u, group_obj = g, mask_obj = m, other_obj = ot\<rparr>,
                bits, f5)"
  using assms by (simp add: recv_literal_fields_def read_byte_def empty_rsync_acl_def)


lemma recv_mask_fixup_id: "mask_iff_names r \<Longrightarrow> recv_mask_fixup r c = r"
  by (auto simp: recv_mask_fixup_def mask_iff_names_def)

lemma recv_literal_fields_sent:
  assumes norm: "normalized_acl r" and len: "length (names r) < 2 ^ 31"
    and short: "\<And>i n. add_uid S i = Some n \<Longrightarrow> length n < 256"
      "\<And>i n. add_gid S i = Some n \<Longrightarrow> length n < 256"
    and ids: "\<And>n i. user_name_id R n i = i" "\<And>n i. group_name_id R n i = i"
      "\<And>i. match_uid R i = i" "\<And>i. match_gid R i = i"
  shows "recv_literal_fields R (send_literal S r @ rest)
         = Inr (r, or_access (names r) AND NOT NO_ENTRY, rest)"
proof -
  define f4 where "f4 = (if names r \<noteq> [] then send_ida_entries S (names r) else []) @ rest"
  define f3 where
    "f3 = (if other_obj r \<noteq> NO_ENTRY then [Varint (ucast (other_obj r))] else []) @ f4"
  define f2 where
    "f2 = (if mask_obj r \<noteq> NO_ENTRY then [Varint (ucast (mask_obj r))] else []) @ f3"
  define f1 where
    "f1 = (if group_obj r \<noteq> NO_ENTRY then [Varint (ucast (group_obj r))] else []) @ f2"
  define f0 where
    "f0 = (if user_obj r \<noteq> NO_ENTRY then [Varint (ucast (user_obj r))] else []) @ f1"
  have sent: "send_literal S r @ rest = Byte (send_flags r) # f0"
    unfolding send_literal_def Let_def send_flags_bits f0_def f1_def f2_def f3_def f4_def
    by simp
  from norm have slots: "perm_slot (user_obj r)" "perm_slot (group_obj r)"
    "perm_slot (mask_obj r)" "perm_slot (other_obj r)" and ns: "list_all named_entry (names r)"
    by (simp_all add: normalized_acl_def)
  have u: "recv_obj (send_flags r) XMIT_USER_OBJ NO_ENTRY f0 = Inr (user_obj r, f1)"
    unfolding f0_def by (rule recv_obj_sent[OF slots(1) send_flags_bits(1)])
  have g: "recv_obj (send_flags r) XMIT_GROUP_OBJ NO_ENTRY f1 = Inr (group_obj r, f2)"
    unfolding f1_def by (rule recv_obj_sent[OF slots(2) send_flags_bits(2)])
  have m: "recv_obj (send_flags r) XMIT_MASK_OBJ NO_ENTRY f2 = Inr (mask_obj r, f3)"
    unfolding f2_def by (rule recv_obj_sent[OF slots(3) send_flags_bits(3)])
  have ot: "recv_obj (send_flags r) XMIT_OTHER_OBJ NO_ENTRY f3 = Inr (other_obj r, f4)"
    unfolding f3_def by (rule recv_obj_sent[OF slots(4) send_flags_bits(4)])
  have n: "(if send_flags r AND XMIT_NAME_LIST \<noteq> 0 then recv_ida_entries R f4
            else Inr (names empty_rsync_acl, 0, f4))
           = Inr (names r, or_access (names r) AND NOT NO_ENTRY, rest)"
  proof (cases "names r = []")
    case True
    then show ?thesis by (simp add: send_flags_bits f4_def empty_rsync_acl_def)
  next
    case False
    with recv_ida_entries_sent[where S=S and R=R and xs="names r" and rest=rest,
        OF short ids ns len]
    show ?thesis by (simp add: send_flags_bits f4_def)
  qed
  from recv_literal_fieldsI[OF u g m ot n] sent show ?thesis by simp
qed

text \<open>
  What decoding makes of any normalized value that was sent as a literal: the value
  after lines 723-731.
\<close>

lemma send_recv_literal_fixup:
  assumes norm: "normalized_acl r" and len: "length (names r) < 2 ^ 31"
    and short: "\<And>i n. add_uid S i = Some n \<Longrightarrow> length n < 256"
      "\<And>i n. add_gid S i = Some n \<Longrightarrow> length n < 256"
    and ids: "\<And>n i. user_name_id R n i = i" "\<And>n i. group_name_id R n i = i"
      "\<And>i. match_uid R i = i" "\<And>i. match_gid R i = i"
  shows "recv_rsync_acl R rlist type (Varint 0 # send_literal S r @ rest)
         = Inr (int (length rlist),
                rlist @ [\<lparr>racl = recv_mask_fixup r (or_access (names r) AND NOT NO_ENTRY),
                          sacl = Sacl_null\<rparr>], rest)"
  using recv_literal_fields_sent[where S=S and R=R and rest=rest, OF norm len short ids]
  by (simp add: recv_rsync_acl_def read_varint_def recv_literal_def)

text \<open>
  C1, as the code has it. Take a NormalizedAcl value whose mask slot is present
  exactly when its named-entry list is non-empty, with fewer than \<open>2^31\<close> named
  entries, that is new to the sender's list; let the names the sender transmits be
  shorter than 256 bytes and let the receiver map every received id to itself. Then
  \<open>send_rsync_acl\<close> writes index 0 and the literal payload (flags byte, present
  permission slots as varints, then the named-entry list), and decoding that payload
  appends a list element whose ACL is structurally equal to the original: the same
  four slots and the same named entries in the same order.
\<close>

theorem send_recv_literal_roundtrip:
  assumes norm: "normalized_acl r" and mask: "mask_iff_names r"
    and len: "length (names r) < 2 ^ 31"
    and new: "list_all (\<lambda>x. \<not> rsync_acl_equal x r) slist"
    and cur: "cursor_in_range type st (length slist)"
    and short: "\<And>i n. add_uid S i = Some n \<Longrightarrow> length n < 256"
      "\<And>i n. add_gid S i = Some n \<Longrightarrow> length n < 256"
    and ids: "\<And>n i. user_name_id R n i = i" "\<And>n i. group_name_id R n i = i"
      "\<And>i. match_uid R i = i" "\<And>i. match_gid R i = i"
  shows "send_rsync_acl S r type st slist
           = Inr (Varint 0 # send_literal S r, empty_rsync_acl, slist @ [r],
                  set_cursor type (- 1) st)
         \<and> recv_rsync_acl R rlist type' (Varint 0 # send_literal S r @ rest)
           = Inr (int (length rlist), rlist @ [\<lparr>racl = r, sacl = Sacl_null\<rparr>], rest)"
proof
  show "send_rsync_acl S r type st slist
           = Inr (Varint 0 # send_literal S r, empty_rsync_acl, slist @ [r],
                  set_cursor type (- 1) st)"
    by (simp add: send_rsync_acl_def find_matching_rsync_acl_no_match[OF new cur])
  from recv_literal_fields_sent[where S=S and R=R and rest=rest, OF norm len short ids]
    recv_mask_fixup_id[OF mask]
  show "recv_rsync_acl R rlist type' (Varint 0 # send_literal S r @ rest)
           = Inr (int (length rlist), rlist @ [\<lparr>racl = r, sacl = Sacl_null\<rparr>], rest)"
    by (simp add: recv_rsync_acl_def read_varint_def recv_literal_def)
qed


text \<open>
  A default ACL with all four slots and two named entries, one of them sent with its
  name.
\<close>

theorem send_recv_literal_roundtrip_witness:
  "normalized_acl \<lparr>names = [\<lparr>ida_id = 1001, access = 0x80000007\<rparr>, \<lparr>ida_id = 9, access = 4\<rparr>],
                    user_obj = 7, group_obj = 5, mask_obj = 7, other_obj = 5\<rparr>
   \<and> mask_iff_names \<lparr>names = [\<lparr>ida_id = 1001, access = 0x80000007\<rparr>, \<lparr>ida_id = 9, access = 4\<rparr>],
                      user_obj = 7, group_obj = 5, mask_obj = 7, other_obj = 5\<rparr>
   \<and> cursor_in_range SMB_ACL_TYPE_DEFAULT initial_match_state (length ([]::rsync_acl list))
   \<and> send_rsync_acl named_env
        \<lparr>names = [\<lparr>ida_id = 1001, access = 0x80000007\<rparr>, \<lparr>ida_id = 9, access = 4\<rparr>],
         user_obj = 7, group_obj = 5, mask_obj = 7, other_obj = 5\<rparr>
        SMB_ACL_TYPE_DEFAULT initial_match_state []
     = Inr ([Varint 0, Byte 31, Varint 7, Varint 5, Varint 7, Varint 5, Varint 2,
             Varint 1001, Varint 31, Byte 5, Buf ''alice'', Varint 9, Varint 16],
            empty_rsync_acl,
            [\<lparr>names = [\<lparr>ida_id = 1001, access = 0x80000007\<rparr>, \<lparr>ida_id = 9, access = 4\<rparr>],
              user_obj = 7, group_obj = 5, mask_obj = 7, other_obj = 5\<rparr>],
            initial_match_state)
   \<and> recv_rsync_acl named_env [] SMB_ACL_TYPE_DEFAULT
        [Varint 0, Byte 31, Varint 7, Varint 5, Varint 7, Varint 5, Varint 2,
         Varint 1001, Varint 31, Byte 5, Buf ''alice'', Varint 9, Varint 16]
     = Inr (0, [\<lparr>racl = \<lparr>names = [\<lparr>ida_id = 1001, access = 0x80000007\<rparr>,
                                    \<lparr>ida_id = 9, access = 4\<rparr>],
                           user_obj = 7, group_obj = 5, mask_obj = 7, other_obj = 5\<rparr>,
                 sacl = Sacl_null\<rparr>], [])"
proof -
  let ?r = "\<lparr>names = [\<lparr>ida_id = 1001, access = 0x80000007\<rparr>, \<lparr>ida_id = 9, access = 4\<rparr>],
             user_obj = 7, group_obj = 5, mask_obj = 7, other_obj = 5\<rparr>"
  have norm: "normalized_acl ?r"
    by (simp add: normalized_acl_def perm_slot_def named_entry_def NAME_IS_USER_def)
  have mask: "mask_iff_names ?r" by (simp add: mask_iff_names_def NO_ENTRY_def)
  have len: "length (names ?r) < 2 ^ 31" by simp
  have new: "list_all (\<lambda>x. \<not> rsync_acl_equal x ?r) []" by simp
  have cur: "cursor_in_range SMB_ACL_TYPE_DEFAULT initial_match_state (length ([]::rsync_acl list))"
    by (simp add: cursor_in_range_def initial_match_state_def)
  have short: "\<And>i n. add_uid named_env i = Some n \<Longrightarrow> length n < 256"
    "\<And>i n. add_gid named_env i = Some n \<Longrightarrow> length n < 256"
    by (auto simp: named_env_def split: if_splits)
  have ids: "\<And>n i. user_name_id named_env n i = i" "\<And>n i. group_name_id named_env n i = i"
    "\<And>i. match_uid named_env i = i" "\<And>i. match_gid named_env i = i"
    by (simp_all add: named_env_def)
  have lit: "send_literal named_env ?r
             = [Byte 31, Varint 7, Varint 5, Varint 7, Varint 5, Varint 2,
                Varint 1001, Varint 31, Byte 5, Buf ''alice'', Varint 9, Varint 16]"
    by code_simp
  have st: "set_cursor SMB_ACL_TYPE_DEFAULT (- 1) initial_match_state = initial_match_state"
    by (simp add: set_cursor_def initial_match_state_def)
  from send_recv_literal_roundtrip[where S=named_env and R=named_env and r="?r"
      and slist="[]" and st=initial_match_state and type=SMB_ACL_TYPE_DEFAULT
      and rlist="[]" and rest="[]" and type'=SMB_ACL_TYPE_DEFAULT,
      OF norm mask len new cur short ids]
  show ?thesis using norm mask cur by (simp add: lit st)
qed

text \<open>
  C1 as stated covers every NormalizedAcl value. A value with group \<open>rwx\<close>, mask
  \<open>r-x\<close> and no named entries is sent as a literal and decoded into a value without
  a mask whose group slot is \<open>r-x\<close>.
\<close>

theorem send_recv_literal_counterexample:
  "normalized_acl \<lparr>names = [], user_obj = 0x80, group_obj = 7, mask_obj = 5, other_obj = 0x80\<rparr>
   \<and> send_rsync_acl numeric_env
        \<lparr>names = [], user_obj = 0x80, group_obj = 7, mask_obj = 5, other_obj = 0x80\<rparr>
        SMB_ACL_TYPE_ACCESS initial_match_state []
     = Inr ([Varint 0, Byte 6, Varint 7, Varint 5], empty_rsync_acl,
            [\<lparr>names = [], user_obj = 0x80, group_obj = 7, mask_obj = 5, other_obj = 0x80\<rparr>],
            initial_match_state)
   \<and> recv_rsync_acl numeric_env [] SMB_ACL_TYPE_ACCESS [Varint 0, Byte 6, Varint 7, Varint 5]
     = Inr (0, [\<lparr>racl = \<lparr>names = [], user_obj = 0x80, group_obj = 5, mask_obj = 0x80,
                           other_obj = 0x80\<rparr>, sacl = Sacl_null\<rparr>], [])
   \<and> \<lparr>names = [], user_obj = 0x80, group_obj = 5, mask_obj = 0x80, other_obj = 0x80\<rparr>
     \<noteq> \<lparr>names = [], user_obj = 0x80, group_obj = 7, mask_obj = 5, other_obj = (0x80::uchar)\<rparr>"
proof -
  have "normalized_acl
          \<lparr>names = [], user_obj = 0x80, group_obj = 7, mask_obj = 5, other_obj = 0x80\<rparr>"
    by (simp add: normalized_acl_def perm_slot_def NO_ENTRY_def)
  moreover have "send_rsync_acl numeric_env
        \<lparr>names = [], user_obj = 0x80, group_obj = 7, mask_obj = 5, other_obj = 0x80\<rparr>
        SMB_ACL_TYPE_ACCESS initial_match_state []
     = Inr ([Varint 0, Byte 6, Varint 7, Varint 5], empty_rsync_acl,
            [\<lparr>names = [], user_obj = 0x80, group_obj = 7, mask_obj = 5, other_obj = 0x80\<rparr>],
            initial_match_state)"
    by code_simp
  moreover have "recv_rsync_acl numeric_env [] SMB_ACL_TYPE_ACCESS
        [Varint 0, Byte 6, Varint 7, Varint 5]
     = Inr (0, [\<lparr>racl = \<lparr>names = [], user_obj = 0x80, group_obj = 5, mask_obj = 0x80,
                           other_obj = 0x80\<rparr>, sacl = Sacl_null\<rparr>], [])"
    by code_simp
  ultimately show ?thesis by simp
qed



section \<open>Interning\<close>

lemma duo_items_0: "0 < sizeof_acl_duo L \<Longrightarrow> duo_items L (d # ds) 0 = Some (racl d)"
  by (simp add: duo_items_def)

lemma duo_items_1_stray:
  assumes "0 < sizeof_rsync_acl L" and "sizeof_rsync_acl L < sizeof_acl_duo L"
  shows "duo_items L ds 1 = None"
  using assms by (simp add: duo_items_def)

lemma cursor_minus_1:
  "(if type = SMB_ACL_TYPE_ACCESS then access_match st else default_match st) = - 1 \<Longrightarrow>
   set_cursor type (- 1) st = st"
  by (cases st) (auto simp: set_cursor_def)

text \<open>
  Interning into an empty list, then interning an equal value again: the first call
  appends, the second finds the element at index 0 (\<open>base + 0\<close> is the start of the
  first element whatever the element size).
\<close>

lemma cache_rsync_acl_empty_twice:
  assumes "0 < sizeof_acl_duo L" and "cursor_in_range type st 0"
  shows "cache_rsync_acl L (Some r) type st []
           = Inr (0, Some empty_rsync_acl, [\<lparr>racl = r, sacl = Sacl_null\<rparr>], st)
         \<and> cache_rsync_acl L (Some r) type st [\<lparr>racl = r, sacl = Sacl_null\<rparr>]
           = Inr (0, Some r, [\<lparr>racl = r, sacl = Sacl_null\<rparr>], set_cursor type 0 st)"
proof -
  from assms(2) have c: "(if type = SMB_ACL_TYPE_ACCESS then access_match st else default_match st) = - 1"
    by (auto simp: cursor_in_range_def Let_def)
  have "find_matching_rsync_acl r type st (duo_items L []) 0 = Inr (- 1, st)"
    using c cursor_minus_1[OF c] by (simp add: find_matching_rsync_acl_def set_cursor_def Let_def)
  moreover have "find_matching_rsync_acl r type st (duo_items L [\<lparr>racl = r, sacl = Sacl_null\<rparr>]) 1
                 = Inr (0, set_cursor type 0 st)"
    using c duo_items_0[OF assms(1), of "\<lparr>racl = r, sacl = Sacl_null\<rparr>" "[]"]
    by (simp add: find_matching_rsync_acl_def set_cursor_def Let_def rsync_acl_equal_iff)
  ultimately show ?thesis by (simp add: cache_rsync_acl_def)
qed

text \<open>
  A list that already holds one other element: the first call appends at index 1;
  the second call starts its search at \<open>base + 1\<close>, which is
  \<open>sizeof (rsync_acl)\<close> bytes into a buffer of \<open>acl_duo\<close> elements, inside the
  first element.
\<close>

lemma cache_rsync_acl_second_lookup_strays:
  assumes "0 < sizeof_rsync_acl L" and "sizeof_rsync_acl L < sizeof_acl_duo L"
    and "cursor_in_range type st 0" and "\<not> rsync_acl_equal (racl d) r"
  shows "cache_rsync_acl L (Some r) type st [d]
           = Inr (1, Some empty_rsync_acl, [d, \<lparr>racl = r, sacl = Sacl_null\<rparr>], st)
         \<and> cache_rsync_acl L (Some r) type st [d, \<lparr>racl = r, sacl = Sacl_null\<rparr>]
           = Inl (Stray_read 1)"
proof -
  from assms(3) have c: "(if type = SMB_ACL_TYPE_ACCESS then access_match st else default_match st) = - 1"
    by (auto simp: cursor_in_range_def Let_def)
  from assms(1,2) have sd: "0 < sizeof_acl_duo L" by simp
  have "find_matching_rsync_acl r type st (duo_items L [d]) 1 = Inr (- 1, st)"
    using c cursor_minus_1[OF c] duo_items_0[OF sd, of d "[]"] assms(4)
    by (simp add: find_matching_rsync_acl_def set_cursor_def Let_def)
  moreover have "find_matching_rsync_acl r type st
                   (duo_items L [d, \<lparr>racl = r, sacl = Sacl_null\<rparr>]) (Suc (Suc 0))
                 = Inl (Stray_read 1)"
    using c duo_items_1_stray[OF assms(1,2)]
    by (simp add: find_matching_rsync_acl_def Let_def)
  ultimately show ?thesis by (simp add: cache_rsync_acl_def)
qed

text \<open>
  C6 on a list of one element, with the sizes of an LP64 platform (24 and 32 bytes):
  the value is interned at index 1, and interning it again does not return index 1;
  the search reads \<open>base + 1\<close>, which is not an element of the list.
\<close>

theorem cache_rsync_acl_twice_evaluated:
  "cache_rsync_acl \<lparr>sizeof_rsync_acl = 24, sizeof_acl_duo = 32\<rparr>
     (Some \<lparr>names = [], user_obj = 6, group_obj = 4, mask_obj = 0x80, other_obj = 0\<rparr>)
     SMB_ACL_TYPE_ACCESS initial_match_state
     [\<lparr>racl = \<lparr>names = [], user_obj = 7, group_obj = 5, mask_obj = 0x80, other_obj = 5\<rparr>,
       sacl = Sacl_null\<rparr>]
   = Inr (1, Some empty_rsync_acl,
          [\<lparr>racl = \<lparr>names = [], user_obj = 7, group_obj = 5, mask_obj = 0x80, other_obj = 5\<rparr>,
            sacl = Sacl_null\<rparr>,
           \<lparr>racl = \<lparr>names = [], user_obj = 6, group_obj = 4, mask_obj = 0x80, other_obj = 0\<rparr>,
            sacl = Sacl_null\<rparr>],
          initial_match_state)
   \<and> cache_rsync_acl \<lparr>sizeof_rsync_acl = 24, sizeof_acl_duo = 32\<rparr>
       (Some \<lparr>names = [], user_obj = 6, group_obj = 4, mask_obj = 0x80, other_obj = 0\<rparr>)
       SMB_ACL_TYPE_ACCESS initial_match_state
       [\<lparr>racl = \<lparr>names = [], user_obj = 7, group_obj = 5, mask_obj = 0x80, other_obj = 5\<rparr>,
         sacl = Sacl_null\<rparr>,
        \<lparr>racl = \<lparr>names = [], user_obj = 6, group_obj = 4, mask_obj = 0x80, other_obj = 0\<rparr>,
         sacl = Sacl_null\<rparr>]
     = Inl (Stray_read 1)"
  by code_simp


text \<open>
  The sender's lists hold \<open>rsync_acl\<close> elements, and there the search finds what
  was appended: sending a value a second time writes its index plus one and nothing
  else.
\<close>

lemma send_rsync_acl_second_send:
  "send_rsync_acl S r type (set_cursor type (- 1) st) (slist @ [r])
   = Inr ([Varint (of_int (int (length slist) + 1))], r, slist @ [r],
          set_cursor type (int (length slist)) st)"
proof -
  have "racl_items (slist @ [r]) (int (length slist)) = Some r"
    by (simp add: racl_items_def)
  then have "find_matching_rsync_acl r type (set_cursor type (- 1) st)
               (racl_items (slist @ [r])) (Suc (length slist))
             = Inr (int (length slist), set_cursor type (int (length slist)) st)"
    by (cases st) (simp add: find_matching_rsync_acl_def set_cursor_def Let_def
        rsync_acl_equal_iff)
  then show ?thesis by (simp add: send_rsync_acl_def)
qed


section \<open>The mode that accompanies an access ACL\<close>

lemma clear_low6:
  fixes mode :: mode_t
  shows "(mode AND NOT 0x3F) AND 7 = 0"
    and "drop_bit 3 (mode AND NOT 0x3F) AND 7 = 0"
    and "drop_bit 6 (mode AND NOT 0x3F) AND 7 = drop_bit 6 mode AND 7"
proof -
  have "(mode AND NOT (mask 6)) AND mask 3 = 0"
    by (rule bit_word_eqI) (auto simp: bit_simps)
  then show "(mode AND NOT 0x3F) AND 7 = 0" by (simp add: mask_numeral)
  have "drop_bit 3 (mode AND NOT (mask 6)) AND mask 3 = 0"
    by (rule bit_word_eqI) (auto simp: bit_simps)
  then show "drop_bit 3 (mode AND NOT 0x3F) AND 7 = 0" by (simp add: mask_numeral)
  have "drop_bit 6 (mode AND NOT (mask 6)) AND mask 3 = drop_bit 6 mode AND mask 3"
    by (rule bit_word_eqI) (auto simp: bit_simps)
  then show "drop_bit 6 (mode AND NOT 0x3F) AND 7 = drop_bit 6 mode AND 7"
    by (simp add: mask_numeral)
qed

lemma perm_for_tag_cleared:
  "perm_for_tag P r (mode AND NOT 0x3F) tag =
     (case tag of
        SMB_ACL_USER_OBJ \<Rightarrow> Some (drop_bit 6 mode AND 7)
      | SMB_ACL_GROUP_OBJ \<Rightarrow> if group_obj r \<noteq> NO_ENTRY then None else Some 0
      | SMB_ACL_MASK \<Rightarrow> if \<not> ACLS_NEED_MASK P \<and> mask_obj r = NO_ENTRY then None else Some 0
      | SMB_ACL_OTHER \<Rightarrow> Some 0
      | _ \<Rightarrow> None)"
  using clear_low6[of mode]
  by (simp add: perm_for_tag_def split: SMB_ACL_TAG_T.splits)

lemma change_loop_True:
  "change_loop P r m i acl = (True, acl', made) \<Longrightarrow> acl' = stored_perms P r m acl"
proof (induction acl arbitrary: i acl' made)
  case Nil
  then show ?case by (simp add: stored_perms_def)
next
  case (Cons entry rest)
  show ?case
  proof (cases "perm_for_tag P r m (tag_type entry)")
    case None
    with Cons.prems obtain rest' made' where
      "change_loop P r m (Suc i) rest = (True, rest', made')" and "acl' = entry # rest'"
      by (auto split: if_splits prod.splits)
    with Cons.IH None show ?thesis by (simp add: stored_perms_def)
  next
    case (Some bits)
    with Cons.prems obtain rest' made' where
      "change_loop P r m (Suc i) rest = (True, rest', made')"
      and "acl' = entry\<lparr>access_bits := bits\<rparr> # rest'"
      by (auto split: if_splits prod.splits)
    with Cons.IH Some show ?thesis by (simp add: stored_perms_def)
  qed
qed

text \<open>
  C8, as the code has it. When an access ACL is written for a directory whose new
  mode has the sticky bit set while the old mode did not (on platforms losing special
  mode bits, whenever the sticky bit is set at all), and, on platforms that do not
  lose special mode bits, for a non-directory whose old mode had setuid or setgid
  set while the new mode does not, \<open>change_sacl_perms\<close> works with
  \<open>mode & ~0077\<close>: that mode is what the loop stores into the permission entries
  (the group, mask and other entries it rewrites get 0) and what the result is
  made from.
\<close>

theorem change_sacl_perms_clears_group_other:
  assumes "(S_ISDIR mode \<and> mode AND S_ISVTX \<noteq> 0
             \<and> (SMB_ACL_LOSES_SPECIAL_MODE_BITS P \<or> old_mode AND S_ISVTX = 0))
           \<or> (\<not> S_ISDIR mode \<and> \<not> SMB_ACL_LOSES_SPECIAL_MODE_BITS P
               \<and> ((old_mode AND S_ISUID \<noteq> 0 \<and> mode AND S_ISUID = 0)
                    \<or> (old_mode AND S_ISGID \<noteq> 0 \<and> mode AND S_ISGID = 0)))"
  shows "change_sacl_perms P acl r old_mode mode
           = store_mode_perms P acl r old_mode (mode AND NOT 0x3F)
         \<and> (\<forall>acl' made. change_loop P r (mode AND NOT 0x3F) 0 acl = (True, acl', made) \<longrightarrow>
               acl' = stored_perms P r (mode AND NOT 0x3F) acl)
         \<and> (\<forall>tag. perm_for_tag P r (mode AND NOT 0x3F) tag =
               (case tag of
                  SMB_ACL_USER_OBJ \<Rightarrow> Some (drop_bit 6 mode AND 7)
                | SMB_ACL_GROUP_OBJ \<Rightarrow> if group_obj r \<noteq> NO_ENTRY then None else Some 0
                | SMB_ACL_MASK \<Rightarrow>
                    if \<not> ACLS_NEED_MASK P \<and> mask_obj r = NO_ENTRY then None else Some 0
                | SMB_ACL_OTHER \<Rightarrow> Some 0
                | _ \<Rightarrow> None))"
proof -
  from assms have "safe_mode P old_mode mode = mode AND NOT 0x3F"
    by (auto simp: safe_mode_def)
  then show ?thesis
    using change_loop_True perm_for_tag_cleared
    by (simp add: change_sacl_perms_def)
qed


text \<open>
  A directory going from 0755 to 01777, and a regular file going from 04755 to 0755,
  on a platform that keeps the special mode bits.
\<close>

theorem change_sacl_perms_clears_group_other_witness:
  "S_ISDIR 0x43FF \<and> (0x43FF::mode_t) AND S_ISVTX \<noteq> 0 \<and> (0x41ED::mode_t) AND S_ISVTX = 0
   \<and> change_sacl_perms keeping_platform
        [\<lparr>tag_type = SMB_ACL_USER_OBJ, qualifier = None, access_bits = 7\<rparr>,
         \<lparr>tag_type = SMB_ACL_GROUP_OBJ, qualifier = None, access_bits = 5\<rparr>,
         \<lparr>tag_type = SMB_ACL_OTHER, qualifier = None, access_bits = 5\<rparr>]
        empty_rsync_acl 0x41ED 0x43FF
     = (0x41C0,
        [\<lparr>tag_type = SMB_ACL_USER_OBJ, qualifier = None, access_bits = 7\<rparr>,
         \<lparr>tag_type = SMB_ACL_GROUP_OBJ, qualifier = None, access_bits = 0\<rparr>,
         \<lparr>tag_type = SMB_ACL_OTHER, qualifier = None, access_bits = 0\<rparr>],
        [Sys_acl_get_entry 0, Sys_acl_get_tag_type 0, Sys_acl_set_access_bits 7,
         Sys_acl_get_entry 1, Sys_acl_get_tag_type 1, Sys_acl_set_access_bits 0,
         Sys_acl_get_entry 2, Sys_acl_get_tag_type 2, Sys_acl_set_access_bits 0,
         Sys_acl_get_entry 3])
   \<and> \<not> S_ISDIR 0x81ED \<and> (0x89ED::mode_t) AND S_ISUID \<noteq> 0 \<and> (0x81ED::mode_t) AND S_ISUID = 0
   \<and> change_sacl_perms keeping_platform
        [\<lparr>tag_type = SMB_ACL_USER_OBJ, qualifier = None, access_bits = 7\<rparr>,
         \<lparr>tag_type = SMB_ACL_GROUP_OBJ, qualifier = None, access_bits = 5\<rparr>,
         \<lparr>tag_type = SMB_ACL_OTHER, qualifier = None, access_bits = 5\<rparr>]
        empty_rsync_acl 0x89ED 0x81ED
     = (0x89C0,
        [\<lparr>tag_type = SMB_ACL_USER_OBJ, qualifier = None, access_bits = 7\<rparr>,
         \<lparr>tag_type = SMB_ACL_GROUP_OBJ, qualifier = None, access_bits = 0\<rparr>,
         \<lparr>tag_type = SMB_ACL_OTHER, qualifier = None, access_bits = 0\<rparr>],
        [Sys_acl_get_entry 0, Sys_acl_get_tag_type 0, Sys_acl_set_access_bits 7,
         Sys_acl_get_entry 1, Sys_acl_get_tag_type 1, Sys_acl_set_access_bits 0,
         Sys_acl_get_entry 2, Sys_acl_get_tag_type 2, Sys_acl_set_access_bits 0,
         Sys_acl_get_entry 3])"
proof -
  let ?acl = "[\<lparr>tag_type = SMB_ACL_USER_OBJ, qualifier = None, access_bits = 7\<rparr>,
               \<lparr>tag_type = SMB_ACL_GROUP_OBJ, qualifier = None, access_bits = 5\<rparr>,
               \<lparr>tag_type = SMB_ACL_OTHER, qualifier = None, access_bits = (5::uint32)\<rparr>]"
  have d: "S_ISDIR 0x43FF" "(0x43FF::mode_t) AND S_ISVTX \<noteq> 0" "(0x41ED::mode_t) AND S_ISVTX = 0"
    by (simp_all add: S_ISDIR_def S_IFMT_def S_IFDIR_def S_ISVTX_def)
  have f: "\<not> S_ISDIR 0x81ED" "(0x89ED::mode_t) AND S_ISUID \<noteq> 0" "(0x81ED::mode_t) AND S_ISUID = 0"
    by (simp_all add: S_ISDIR_def S_IFMT_def S_IFDIR_def S_ISUID_def)
  have k: "\<not> SMB_ACL_LOSES_SPECIAL_MODE_BITS keeping_platform"
    by (simp add: keeping_platform_def)
  have e1: "store_mode_perms keeping_platform ?acl empty_rsync_acl 0x41ED (0x43FF AND NOT 0x3F)
     = (0x41C0,
        [\<lparr>tag_type = SMB_ACL_USER_OBJ, qualifier = None, access_bits = 7\<rparr>,
         \<lparr>tag_type = SMB_ACL_GROUP_OBJ, qualifier = None, access_bits = 0\<rparr>,
         \<lparr>tag_type = SMB_ACL_OTHER, qualifier = None, access_bits = 0\<rparr>],
        [Sys_acl_get_entry 0, Sys_acl_get_tag_type 0, Sys_acl_set_access_bits 7,
         Sys_acl_get_entry 1, Sys_acl_get_tag_type 1, Sys_acl_set_access_bits 0,
         Sys_acl_get_entry 2, Sys_acl_get_tag_type 2, Sys_acl_set_access_bits 0,
         Sys_acl_get_entry 3])"
    by code_simp
  have e2: "store_mode_perms keeping_platform ?acl empty_rsync_acl 0x89ED (0x81ED AND NOT 0x3F)
     = (0x89C0,
        [\<lparr>tag_type = SMB_ACL_USER_OBJ, qualifier = None, access_bits = 7\<rparr>,
         \<lparr>tag_type = SMB_ACL_GROUP_OBJ, qualifier = None, access_bits = 0\<rparr>,
         \<lparr>tag_type = SMB_ACL_OTHER, qualifier = None, access_bits = 0\<rparr>],
        [Sys_acl_get_entry 0, Sys_acl_get_tag_type 0, Sys_acl_set_access_bits 7,
         Sys_acl_get_entry 1, Sys_acl_get_tag_type 1, Sys_acl_set_access_bits 0,
         Sys_acl_get_entry 2, Sys_acl_get_tag_type 2, Sys_acl_set_access_bits 0,
         Sys_acl_get_entry 3])"
    by code_simp
  from change_sacl_perms_clears_group_other[of "0x43FF" keeping_platform "0x41ED" ?acl
      empty_rsync_acl] d
  have 1: "change_sacl_perms keeping_platform ?acl empty_rsync_acl 0x41ED 0x43FF
           = store_mode_perms keeping_platform ?acl empty_rsync_acl 0x41ED (0x43FF AND NOT 0x3F)"
    by blast
  from change_sacl_perms_clears_group_other[of "0x81ED" keeping_platform "0x89ED" ?acl
      empty_rsync_acl] f k
  have 2: "change_sacl_perms keeping_platform ?acl empty_rsync_acl 0x89ED 0x81ED
           = store_mode_perms keeping_platform ?acl empty_rsync_acl 0x89ED (0x81ED AND NOT 0x3F)"
    by blast
  from 1 2 e1 e2 d f show ?thesis by (simp only:) simp
qed

text \<open>
  C8 as stated has the non-directory rule on every platform. On a platform that
  loses the special mode bits, a regular file going from 04755 to 0755 gets the
  group and other permissions of the unchanged mode.
\<close>

theorem change_sacl_perms_counterexample:
  "\<not> S_ISDIR 0x81ED \<and> (0x89ED::mode_t) AND S_ISUID \<noteq> 0 \<and> (0x81ED::mode_t) AND S_ISUID = 0
   \<and> change_sacl_perms losing_platform
        [\<lparr>tag_type = SMB_ACL_USER_OBJ, qualifier = None, access_bits = 7\<rparr>,
         \<lparr>tag_type = SMB_ACL_GROUP_OBJ, qualifier = None, access_bits = 5\<rparr>,
         \<lparr>tag_type = SMB_ACL_OTHER, qualifier = None, access_bits = 5\<rparr>]
        empty_rsync_acl 0x89ED 0x81ED
     = (0x89ED,
        [\<lparr>tag_type = SMB_ACL_USER_OBJ, qualifier = None, access_bits = 7\<rparr>,
         \<lparr>tag_type = SMB_ACL_GROUP_OBJ, qualifier = None, access_bits = 5\<rparr>,
         \<lparr>tag_type = SMB_ACL_OTHER, qualifier = None, access_bits = 5\<rparr>],
        [Sys_acl_get_entry 0, Sys_acl_get_tag_type 0, Sys_acl_set_access_bits 7,
         Sys_acl_get_entry 1, Sys_acl_get_tag_type 1, Sys_acl_set_access_bits 5,
         Sys_acl_get_entry 2, Sys_acl_get_tag_type 2, Sys_acl_set_access_bits 5,
         Sys_acl_get_entry 3])
   \<and> safe_mode losing_platform 0x89ED 0x81ED = 0x81ED
   \<and> (0x81ED::mode_t) AND NOT 0x3F = 0x81C0"
proof -
  have "\<not> S_ISDIR 0x81ED" "(0x89ED::mode_t) AND S_ISUID \<noteq> 0" "(0x81ED::mode_t) AND S_ISUID = 0"
    by (simp_all add: S_ISDIR_def S_IFMT_def S_IFDIR_def S_ISUID_def)
  moreover have "change_sacl_perms losing_platform
        [\<lparr>tag_type = SMB_ACL_USER_OBJ, qualifier = None, access_bits = 7\<rparr>,
         \<lparr>tag_type = SMB_ACL_GROUP_OBJ, qualifier = None, access_bits = 5\<rparr>,
         \<lparr>tag_type = SMB_ACL_OTHER, qualifier = None, access_bits = 5\<rparr>]
        empty_rsync_acl 0x89ED 0x81ED
     = (0x89ED,
        [\<lparr>tag_type = SMB_ACL_USER_OBJ, qualifier = None, access_bits = 7\<rparr>,
         \<lparr>tag_type = SMB_ACL_GROUP_OBJ, qualifier = None, access_bits = 5\<rparr>,
         \<lparr>tag_type = SMB_ACL_OTHER, qualifier = None, access_bits = 5\<rparr>],
        [Sys_acl_get_entry 0, Sys_acl_get_tag_type 0, Sys_acl_set_access_bits 7,
         Sys_acl_get_entry 1, Sys_acl_get_tag_type 1, Sys_acl_set_access_bits 5,
         Sys_acl_get_entry 2, Sys_acl_get_tag_type 2, Sys_acl_set_access_bits 5,
         Sys_acl_get_entry 3])"
    by code_simp
  moreover have "safe_mode losing_platform 0x89ED 0x81ED = 0x81ED" by code_simp
  ultimately show ?thesis by simp
qed


section \<open>Deleting a default ACL\<close>

text \<open>
  C7. For a default-type list element whose owning-user slot is absent,
  \<open>set_rsync_acl\<close> asks for the deletion of the default ACL of the path and makes no
  other platform call: no system ACL is built (\<open>sacl\<close> stays as it was) and none is
  written.
\<close>

theorem set_rsync_acl_deletes_default:
  assumes "user_obj (racl duo_item) = NO_ENTRY"
  shows "set_rsync_acl P fname duo_item SMB_ACL_TYPE_DEFAULT st_mode mode
         = Inr (if sys_fails P (Sys_acl_delete_def_file fname) then - 1 else 0,
                duo_item, st_mode, [Sys_acl_delete_def_file fname])"
  using assms by (simp add: set_rsync_acl_def)


text \<open>A directory that is to have no default ACL.\<close>

theorem set_rsync_acl_deletes_default_witness:
  "user_obj (racl \<lparr>racl = empty_rsync_acl, sacl = Sacl_null\<rparr>) = NO_ENTRY
   \<and> set_rsync_acl keeping_platform ''d'' \<lparr>racl = empty_rsync_acl, sacl = Sacl_null\<rparr>
        SMB_ACL_TYPE_DEFAULT 0x41ED 0x41ED
     = Inr (0, \<lparr>racl = empty_rsync_acl, sacl = Sacl_null\<rparr>, 0x41ED,
            [Sys_acl_delete_def_file ''d''])"
proof -
  have u: "user_obj (racl \<lparr>racl = empty_rsync_acl, sacl = Sacl_null\<rparr>) = NO_ENTRY"
    by (simp add: empty_rsync_acl_def)
  from set_rsync_acl_deletes_default[OF u, of keeping_platform "''d''" "0x41ED" "0x41ED"] u
  show ?thesis by (simp add: keeping_platform_def)
qed



text \<open>
  For contrast, a default ACL with an owning-user slot: the system ACL is built and
  written.
\<close>

lemma set_rsync_acl_writes_default:
  "set_rsync_acl keeping_platform ''d''
     \<lparr>racl = \<lparr>names = [], user_obj = 7, group_obj = 5, mask_obj = 0x80, other_obj = 5\<rparr>,
      sacl = Sacl_null\<rparr> SMB_ACL_TYPE_DEFAULT 0x41ED 0x41ED
   = Inr (0,
          \<lparr>racl = \<lparr>names = [], user_obj = 7, group_obj = 5, mask_obj = 0x80, other_obj = 5\<rparr>,
           sacl = Sacl [\<lparr>tag_type = SMB_ACL_USER_OBJ, qualifier = None, access_bits = 7\<rparr>,
                        \<lparr>tag_type = SMB_ACL_GROUP_OBJ, qualifier = None, access_bits = 5\<rparr>,
                        \<lparr>tag_type = SMB_ACL_MASK, qualifier = None, access_bits = 5\<rparr>,
                        \<lparr>tag_type = SMB_ACL_OTHER, qualifier = None, access_bits = 5\<rparr>]\<rparr>,
          0x41ED,
          [Sys_acl_init 4,
           Sys_acl_create_entry, Sys_acl_set_tag_type SMB_ACL_USER_OBJ, Sys_acl_set_access_bits 7,
           Sys_acl_create_entry, Sys_acl_set_tag_type SMB_ACL_GROUP_OBJ, Sys_acl_set_access_bits 5,
           Sys_acl_create_entry, Sys_acl_set_tag_type SMB_ACL_MASK, Sys_acl_set_access_bits 5,
           Sys_acl_create_entry, Sys_acl_set_tag_type SMB_ACL_OTHER, Sys_acl_set_access_bits 5,
           Sys_acl_set_file ''d'' SMB_ACL_TYPE_DEFAULT
             [\<lparr>tag_type = SMB_ACL_USER_OBJ, qualifier = None, access_bits = 7\<rparr>,
              \<lparr>tag_type = SMB_ACL_GROUP_OBJ, qualifier = None, access_bits = 5\<rparr>,
              \<lparr>tag_type = SMB_ACL_MASK, qualifier = None, access_bits = 5\<rparr>,
              \<lparr>tag_type = SMB_ACL_OTHER, qualifier = None, access_bits = 5\<rparr>]])"
  by code_simp

end
